theory Spec2Isabelle
  imports Complex_Main
begin

section \<open>Python values\<close>

text \<open>
  The fields of \<^verbatim>\<open>ZMapScanConfig\<close> are annotated, but Python does not enforce the
  annotations: a field holds whatever value the caller passes. The model therefore keeps every
  field as a dynamically typed value.

  A Python \<^verbatim>\<open>str\<close> is a sequence of code points; the model represents the code points
  U+0000 to U+00FF by \<^typ>\<open>char\<close> (so \<^typ>\<open>string\<close> covers ASCII and Latin-1 text).
  Floats are the finite rationals, the two infinities and NaN. Dictionary keys are the hashable
  atoms \<^verbatim>\<open>None\<close>, \<^verbatim>\<open>bool\<close>,
  \<^verbatim>\<open>int\<close> and \<^verbatim>\<open>str\<close>.

  Equality in the theorems is equality of values. Values that are equal in this sense are
  equal for Python's \<^verbatim>\<open>==\<close> too, unless a NaN occurs in them: \<^verbatim>\<open>==\<close> holds a NaN
  unequal to every float, and a NaN that has been written and read again is another object.
\<close>

datatype pyfloat = Finite rat | PosInf | NegInf | NaN

datatype pykey = KNone | KBool bool | KInt int | KStr string

datatype pyval =
    PNone
  | PBool bool
  | PInt int
  | PFloat pyfloat
  | PStr string
  | PList "pyval list"
  | PDict "(pykey \<times> pyval) list"

section \<open>The limit on the digits of an integer\<close>

text \<open>
  CPython converts between \<^verbatim>\<open>int\<close> and decimal text only up to
  \<^verbatim>\<open>sys.get_int_max_str_digits()\<close> digits, 4300 unless the interpreter is configured
  otherwise: \<^verbatim>\<open>str\<close> of an integer (also inside an f-string, and in
  \<^verbatim>\<open>json.dumps\<close>) and \<^verbatim>\<open>int\<close> of a string (also in \<^verbatim>\<open>json.loads\<close>) raise
  \<^verbatim>\<open>ValueError\<close> beyond it.
\<close>

definition max_str_digits :: nat where
  "max_str_digits = 4300"

text \<open>\<^verbatim>\<open>str(i)\<close> succeeds: the numeral of \<open>i\<close> has at most 4300 digits.\<close>

definition repr_ok :: "int \<Rightarrow> bool" where
  "repr_ok i = (\<bar>i\<bar> < 10 ^ max_str_digits)"

text \<open>
  \<^verbatim>\<open>str(v)\<close> succeeds, and \<^verbatim>\<open>json.dumps(v)\<close> too: every integer inside the value, as a
  value or as a key, has a numeral within the limit.
\<close>

fun key_printable :: "pykey \<Rightarrow> bool" where
  "key_printable (KInt i) = repr_ok i"
| "key_printable k = True"

fun printable :: "pyval \<Rightarrow> bool" where
  "printable (PInt i) = repr_ok i"
| "printable (PList xs) = list_all printable xs"
| "printable (PDict kvs) = list_all (\<lambda>(k, v). key_printable k \<and> printable v) kvs"
| "printable v = True"

section \<open>Errors\<close>

text \<open>
  \<^verbatim>\<open>ZMapConfigError\<close> carries one formatted message. The model keeps which of the
  source's f-string templates produced the message and the value interpolated into it, and does
  not render the text.
\<close>

datatype message =
    Invalid_target_port pyval
  | Rate_and_bandwidth
  | Invalid_source_port_range pyval
  | Invalid_source_port_range_bounds pyval
  | Invalid_source_port pyval
  | Invalid_max_targets pyval
  | Invalid_mac string pyval

datatype error =
    ZMapConfigError message
  | TypeError
  | ValueError
  | JSONDecodeError

fun is_config_error :: "error \<Rightarrow> bool" where
  "is_config_error (ZMapConfigError m) = True"
| "is_config_error e = False"

text \<open>
  \<^verbatim>\<open>raise ZMapConfigError(f"... {value} ...")\<close>: the message is formatted first, and
  formatting an integer beyond the digit limit raises \<^verbatim>\<open>ValueError\<close> instead.
\<close>

definition config_error :: "(pyval \<Rightarrow> message) \<Rightarrow> pyval \<Rightarrow> error" where
  "config_error template v = (if printable v then ZMapConfigError (template v) else ValueError)"

section \<open>The configuration\<close>

text \<open>The fields in the order of the class body; the field \<^verbatim>\<open>notes\<close> is \<open>notes'\<close>.\<close>

record ZMapScanConfig =
  target_port :: pyval
  bandwidth :: pyval
  rate :: pyval
  cooldown_time :: pyval
  interface :: pyval
  source_ip :: pyval
  source_port :: pyval
  gateway_mac :: pyval
  source_mac :: pyval
  target_mac :: pyval
  vpn :: pyval
  max_targets :: pyval
  max_runtime :: pyval
  max_results :: pyval
  probes :: pyval
  retries :: pyval
  dryrun :: pyval
  seed :: pyval
  shards :: pyval
  shard :: pyval
  sender_threads :: pyval
  cores :: pyval
  ignore_invalid_hosts :: pyval
  max_sendto_failures :: pyval
  min_hitrate :: pyval
  notes' :: pyval
  user_metadata :: pyval

text \<open>The dataclass defaults: every field \<^verbatim>\<open>None\<close>, the three flags \<^verbatim>\<open>False\<close>.\<close>

definition default_config :: ZMapScanConfig where
  "default_config = \<lparr>
     target_port = PNone, bandwidth = PNone, rate = PNone, cooldown_time = PNone,
     interface = PNone, source_ip = PNone, source_port = PNone, gateway_mac = PNone,
     source_mac = PNone, target_mac = PNone, vpn = PBool False,
     max_targets = PNone, max_runtime = PNone, max_results = PNone, probes = PNone,
     retries = PNone, dryrun = PBool False, seed = PNone, shards = PNone, shard = PNone,
     sender_threads = PNone, cores = PNone, ignore_invalid_hosts = PBool False,
     max_sendto_failures = PNone, min_hitrate = PNone,
     notes' = PNone, user_metadata = PNone \<rparr>"

section \<open>String operations of the Python library\<close>

text \<open>\<^verbatim>\<open>s.split(sep)\<close> for a one-character separator: the pieces between the separators.\<close>

fun split :: "char \<Rightarrow> string \<Rightarrow> string list" where
  "split sep [] = [[]]"
| "split sep (c # cs) =
     (if c = sep then [] # split sep cs
      else (case split sep cs of p # ps \<Rightarrow> (c # p) # ps | [] \<Rightarrow> [[c]]))"

text \<open>\<^verbatim>\<open>s.endswith(c)\<close> for a one-character suffix.\<close>

definition endswith :: "string \<Rightarrow> char \<Rightarrow> bool" where
  "endswith s c = (s \<noteq> [] \<and> last s = c)"

text \<open>
  \<^verbatim>\<open>str.isdigit\<close>: the string is not empty and every character has the Unicode property
  Numeric_Type Digit or Decimal. Below U+0100 these are the ASCII digits and the superscripts
  U+00B2, U+00B3 and U+00B9.
\<close>

definition is_decimal :: "char \<Rightarrow> bool" where
  "is_decimal c = (c \<in> set ''0123456789'')"

definition is_superscript_digit :: "char \<Rightarrow> bool" where
  "is_superscript_digit c = (c = CHR 0xB2 \<or> c = CHR 0xB3 \<or> c = CHR 0xB9)"

definition isdigit :: "string \<Rightarrow> bool" where
  "isdigit s = (s \<noteq> [] \<and> list_all (\<lambda>c. is_decimal c \<or> is_superscript_digit c) s)"

text \<open>
  \<^verbatim>\<open>int(s)\<close> on a string, base 10: surrounding whitespace is skipped, then an optional sign,
  then decimal digits in which single underscores may separate digits. Anything else raises
  \<^verbatim>\<open>ValueError\<close>, here \<open>None\<close>. Below U+0100 the decimal digits are the ASCII digits and the
  whitespace skipped is U+0009 to U+000D, U+0020, U+0085 and U+00A0. A string with more
  digits than the limit raises \<^verbatim>\<open>ValueError\<close> as well (leading zeros count, underscores
  do not). \<open>int_unsigned\<close> is the numeral without the limit.
\<close>

definition digit_val :: "char \<Rightarrow> nat" where
  "digit_val c = of_char c - 48"

definition is_int_space :: "char \<Rightarrow> bool" where
  "is_int_space c =
     (c \<in> set [CHR 0x09, CHR 0x0A, CHR 0x0B, CHR 0x0C, CHR 0x0D, CHR 0x20, CHR 0x85, CHR 0xA0])"

fun int_digits :: "string \<Rightarrow> nat \<Rightarrow> nat option" where
  "int_digits [] acc = Some acc"
| "int_digits (c # cs) acc =
     (if is_decimal c then int_digits cs (10 * acc + digit_val c)
      else if c = CHR ''_'' then
        (case cs of
           [] \<Rightarrow> None
         | d # ds \<Rightarrow> if is_decimal d then int_digits ds (10 * acc + digit_val d) else None)
      else None)"

definition int_unsigned :: "string \<Rightarrow> nat option" where
  "int_unsigned s =
     (case s of
        [] \<Rightarrow> None
      | d # ds \<Rightarrow> if is_decimal d then int_digits ds (digit_val d) else None)"

definition strip_int_space :: "string \<Rightarrow> string" where
  "strip_int_space s = rev (dropWhile is_int_space (rev (dropWhile is_int_space s)))"

definition digit_count :: "string \<Rightarrow> nat" where
  "digit_count s = length (filter is_decimal s)"

definition py_int :: "string \<Rightarrow> int option" where
  "py_int s =
     (case strip_int_space s of
        [] \<Rightarrow> None
      | c # cs \<Rightarrow>
          if max_str_digits < digit_count (c # cs) then None
          else if c = CHR ''-'' then map_option (\<lambda>n. - int n) (int_unsigned cs)
          else if c = CHR ''+'' then map_option int (int_unsigned cs)
          else map_option int (int_unsigned (c # cs)))"

section \<open>MAC addresses\<close>

text \<open>
  \<^verbatim>\<open>re.match(r'^([0-9A-Fa-f]{2}[:-]){5}([0-9A-Fa-f]{2})$', mac)\<close>. Each piece of the pattern
  consumes a prefix of the string and returns the rest, or fails. Without the MULTILINE
  flag, Python's \<^verbatim>\<open>$\<close> matches at the end of the string and also just before a newline
  that is the last character of the string.
\<close>

definition is_hex :: "char \<Rightarrow> bool" where
  "is_hex c = (c \<in> set ''0123456789ABCDEFabcdef'')"

definition is_mac_sep :: "char \<Rightarrow> bool" where
  "is_mac_sep c = (c = CHR '':'' \<or> c = CHR ''-'')"

fun hex_octet :: "string \<Rightarrow> string option" where
  "hex_octet (a # b # rest) = (if is_hex a \<and> is_hex b then Some rest else None)"
| "hex_octet s = None"

fun mac_sep :: "string \<Rightarrow> string option" where
  "mac_sep (d # rest) = (if is_mac_sep d then Some rest else None)"
| "mac_sep [] = None"

definition octet_sep :: "string \<Rightarrow> string option" where
  "octet_sep s = (case hex_octet s of None \<Rightarrow> None | Some rest \<Rightarrow> mac_sep rest)"

fun repeat :: "nat \<Rightarrow> (string \<Rightarrow> string option) \<Rightarrow> string \<Rightarrow> string option" where
  "repeat 0 m s = Some s"
| "repeat (Suc n) m s = (case m s of None \<Rightarrow> None | Some rest \<Rightarrow> repeat n m rest)"

definition at_dollar :: "string \<Rightarrow> bool" where
  "at_dollar rest = (rest = [] \<or> rest = [CHR 0x0A])"

definition is_valid_mac :: "string \<Rightarrow> bool" where
  "is_valid_mac mac =
     (case repeat 5 octet_sep mac of
        None \<Rightarrow> False
      | Some rest \<Rightarrow> (case hex_octet rest of None \<Rightarrow> False | Some rest' \<Rightarrow> at_dollar rest'))"

section \<open>Validation\<close>

text \<open>
  The source's \<^verbatim>\<open>_validate\<close> and \<^verbatim>\<open>_is_valid_mac\<close> are \<open>validate\<close> and
  \<open>is_valid_mac\<close> here, one function per check of \<^verbatim>\<open>_validate\<close>.

  \<^verbatim>\<open>0 <= v <= 65535\<close> on a Python value: numbers compare (a \<^verbatim>\<open>bool\<close> is the integer 0
  or 1, a comparison with NaN is false), any other value raises \<^verbatim>\<open>TypeError\<close>, here
  \<open>None\<close>.
\<close>

fun in_port_range :: "pyval \<Rightarrow> bool option" where
  "in_port_range (PInt i) = Some (0 \<le> i \<and> i \<le> 65535)"
| "in_port_range (PBool b) = Some True"
| "in_port_range (PFloat (Finite r)) = Some (0 \<le> r \<and> r \<le> 65535)"
| "in_port_range (PFloat PosInf) = Some False"
| "in_port_range (PFloat NegInf) = Some False"
| "in_port_range (PFloat NaN) = Some False"
| "in_port_range v = None"

definition check_target_port :: "pyval \<Rightarrow> error + unit" where
  "check_target_port v =
     (if v = PNone then Inr ()
      else (case in_port_range v of
              None \<Rightarrow> Inl TypeError
            | Some ok \<Rightarrow> if ok then Inr () else Inl (config_error Invalid_target_port v)))"

definition check_rate_bandwidth :: "pyval \<Rightarrow> pyval \<Rightarrow> error + unit" where
  "check_rate_bandwidth r b =
     (if r \<noteq> PNone \<and> b \<noteq> PNone then Inl (ZMapConfigError Rate_and_bandwidth) else Inr ())"

definition check_port_range :: "pyval \<Rightarrow> string \<Rightarrow> error + unit" where
  "check_port_range v s =
     (let parts = split CHR ''-'' s in
      if length parts \<noteq> 2 \<or> \<not> list_all isdigit parts
      then Inl (config_error Invalid_source_port_range v)
      else (case map py_int parts of
              [Some start, Some end] \<Rightarrow>
                if 0 \<le> start \<and> start \<le> end \<and> end \<le> 65535 then Inr ()
                else Inl (config_error Invalid_source_port_range_bounds v)
            | _ \<Rightarrow> Inl ValueError))"

fun check_source_port :: "pyval \<Rightarrow> error + unit" where
  "check_source_port (PStr s) =
     (if CHR ''-'' \<in> set s then check_port_range (PStr s) s else Inr ())"
| "check_source_port (PInt i) =
     (if 0 \<le> i \<and> i \<le> 65535 then Inr () else Inl (config_error Invalid_source_port (PInt i)))"
| "check_source_port (PBool b) = Inr ()"
| "check_source_port v = Inr ()"

fun check_max_targets :: "pyval \<Rightarrow> error + unit" where
  "check_max_targets (PStr s) =
     (if endswith s CHR ''%'' then Inr ()
      else (case py_int s of
              None \<Rightarrow> Inl (config_error Invalid_max_targets (PStr s))
            | Some n \<Rightarrow> Inr ()))"
| "check_max_targets v = Inr ()"

fun check_mac :: "string \<Rightarrow> pyval \<Rightarrow> error + unit" where
  "check_mac field PNone = Inr ()"
| "check_mac field (PStr s) =
     (if is_valid_mac s then Inr () else Inl (config_error (Invalid_mac field) (PStr s)))"
| "check_mac field v = Inl TypeError"

text \<open>The checks run in the order of the source; the first one that raises ends the validation.\<close>

fun and_then :: "error + unit \<Rightarrow> error + unit \<Rightarrow> error + unit" where
  "and_then (Inl e) r = Inl e"
| "and_then (Inr u) r = r"

definition validate :: "ZMapScanConfig \<Rightarrow> error + unit" where
  "validate c =
     and_then (check_target_port (target_port c))
    (and_then (check_rate_bandwidth (rate c) (bandwidth c))
    (and_then (check_source_port (source_port c))
    (and_then (check_max_targets (max_targets c))
    (and_then (check_mac ''gateway_mac'' (gateway_mac c))
    (and_then (check_mac ''source_mac'' (source_mac c))
              (check_mac ''target_mac'' (target_mac c)))))))"

text \<open>
  Construction: the generated \<^verbatim>\<open>__init__\<close> stores the field values and calls
  \<^verbatim>\<open>__post_init__\<close>, which validates; when validation raises, no instance is returned.
\<close>

definition new_config :: "ZMapScanConfig \<Rightarrow> error + ZMapScanConfig" where
  "new_config c = (case validate c of Inl e \<Rightarrow> Inl e | Inr u \<Rightarrow> Inr c)"

section \<open>Serialization\<close>

type_synonym pydict = "(pykey \<times> pyval) list"

text \<open>The field names, in the order of the class body.\<close>

definition field_names :: "string list" where
  "field_names =
    [''target_port'', ''bandwidth'', ''rate'', ''cooldown_time'',
     ''interface'', ''source_ip'', ''source_port'', ''gateway_mac'',
     ''source_mac'', ''target_mac'', ''vpn'', ''max_targets'',
     ''max_runtime'', ''max_results'', ''probes'', ''retries'',
     ''dryrun'', ''seed'', ''shards'', ''shard'',
     ''sender_threads'', ''cores'', ''ignore_invalid_hosts'', ''max_sendto_failures'',
     ''min_hitrate'', ''notes'', ''user_metadata'']"

text \<open>
  \<^verbatim>\<open>dataclasses.asdict\<close>: one entry per field, in field order. It copies lists and
  dictionaries; values here are immutable, so the copy is the value.
\<close>

definition asdict :: "ZMapScanConfig \<Rightarrow> pydict" where
  "asdict c =
    [(KStr ''target_port'', target_port c), (KStr ''bandwidth'', bandwidth c),
     (KStr ''rate'', rate c), (KStr ''cooldown_time'', cooldown_time c),
     (KStr ''interface'', interface c), (KStr ''source_ip'', source_ip c),
     (KStr ''source_port'', source_port c), (KStr ''gateway_mac'', gateway_mac c),
     (KStr ''source_mac'', source_mac c), (KStr ''target_mac'', target_mac c),
     (KStr ''vpn'', vpn c), (KStr ''max_targets'', max_targets c),
     (KStr ''max_runtime'', max_runtime c), (KStr ''max_results'', max_results c),
     (KStr ''probes'', probes c), (KStr ''retries'', retries c),
     (KStr ''dryrun'', dryrun c), (KStr ''seed'', seed c),
     (KStr ''shards'', shards c), (KStr ''shard'', shard c),
     (KStr ''sender_threads'', sender_threads c), (KStr ''cores'', cores c),
     (KStr ''ignore_invalid_hosts'', ignore_invalid_hosts c),
     (KStr ''max_sendto_failures'', max_sendto_failures c),
     (KStr ''min_hitrate'', min_hitrate c), (KStr ''notes'', notes' c),
     (KStr ''user_metadata'', user_metadata c)]"

definition to_dict :: "ZMapScanConfig \<Rightarrow> pydict" where
  "to_dict c = filter (\<lambda>(key, val). val \<noteq> PNone) (asdict c)"

text \<open>
  \<^verbatim>\<open>cls(**data)\<close>: a key that is not a string or not the name of a field raises
  \<^verbatim>\<open>TypeError\<close>; a field without an entry takes its default; then the constructor runs.
\<close>

definition arg :: "pydict \<Rightarrow> string \<Rightarrow> pyval \<Rightarrow> pyval" where
  "arg d name dflt = (case map_of d (KStr name) of None \<Rightarrow> dflt | Some v \<Rightarrow> v)"

definition init_fields :: "pydict \<Rightarrow> ZMapScanConfig" where
  "init_fields d = \<lparr>
       target_port = arg d ''target_port'' PNone,
       bandwidth = arg d ''bandwidth'' PNone,
       rate = arg d ''rate'' PNone,
       cooldown_time = arg d ''cooldown_time'' PNone,
       interface = arg d ''interface'' PNone,
       source_ip = arg d ''source_ip'' PNone,
       source_port = arg d ''source_port'' PNone,
       gateway_mac = arg d ''gateway_mac'' PNone,
       source_mac = arg d ''source_mac'' PNone,
       target_mac = arg d ''target_mac'' PNone,
       vpn = arg d ''vpn'' (PBool False),
       max_targets = arg d ''max_targets'' PNone,
       max_runtime = arg d ''max_runtime'' PNone,
       max_results = arg d ''max_results'' PNone,
       probes = arg d ''probes'' PNone,
       retries = arg d ''retries'' PNone,
       dryrun = arg d ''dryrun'' (PBool False),
       seed = arg d ''seed'' PNone,
       shards = arg d ''shards'' PNone,
       shard = arg d ''shard'' PNone,
       sender_threads = arg d ''sender_threads'' PNone,
       cores = arg d ''cores'' PNone,
       ignore_invalid_hosts = arg d ''ignore_invalid_hosts'' (PBool False),
       max_sendto_failures = arg d ''max_sendto_failures'' PNone,
       min_hitrate = arg d ''min_hitrate'' PNone,
       notes' = arg d ''notes'' PNone,
       user_metadata = arg d ''user_metadata'' PNone \<rparr>"

definition from_dict :: "pydict \<Rightarrow> error + ZMapScanConfig" where
  "from_dict d =
     (if list_all (\<lambda>(key, val). key \<in> set (map KStr field_names)) d
      then new_config (init_fields d)
      else Inl TypeError)"

subsection \<open>JSON\<close>

text \<open>
  \<^verbatim>\<open>json.dumps\<close> and \<^verbatim>\<open>json.loads\<close> belong to the Python library. They are modelled
  on JSON documents: a string handed to \<^verbatim>\<open>json.loads\<close> either is a JSON text, which
  encodes one document, or is not, and the text written by \<^verbatim>\<open>json.dumps\<close> encodes the
  document it was written from. Escaping and indentation are not modelled. \<open>encode\<close> and
  \<open>decode\<close> are the two translations between values and documents; \<open>dumps\<close> and
  \<open>loads\<close> add the failures of the library functions.
\<close>

datatype json =
    JNull
  | JBool bool
  | JInt int
  | JFloat pyfloat
  | JStr string
  | JArr "json list"
  | JObj "(string \<times> json) list"

datatype json_str = Encodes json | Not_json

text \<open>The decimal numeral of an integer, as \<^verbatim>\<open>int.__repr__\<close> writes it.\<close>

fun show_nat :: "nat \<Rightarrow> string" where
  "show_nat n =
     (if n < 10 then [''0123456789'' ! n]
      else show_nat (n div 10) @ [''0123456789'' ! (n mod 10)])"

definition show_int :: "int \<Rightarrow> string" where
  "show_int i = (if i < 0 then CHR ''-'' # show_nat (nat (- i)) else show_nat (nat i))"

text \<open>\<^verbatim>\<open>json.dumps\<close> turns the keys of a dictionary into strings.\<close>

fun json_key :: "pykey \<Rightarrow> string" where
  "json_key (KStr s) = s"
| "json_key (KInt i) = show_int i"
| "json_key (KBool b) = (if b then ''true'' else ''false'')"
| "json_key KNone = ''null''"

fun encode :: "pyval \<Rightarrow> json" where
  "encode PNone = JNull"
| "encode (PBool b) = JBool b"
| "encode (PInt i) = JInt i"
| "encode (PFloat f) = JFloat f"
| "encode (PStr s) = JStr s"
| "encode (PList xs) = JArr (map encode xs)"
| "encode (PDict kvs) = JObj (map (\<lambda>(k, v). (json_key k, encode v)) kvs)"

text \<open>
  \<^verbatim>\<open>json.dumps(v)\<close> writes integers with \<^verbatim>\<open>int.__repr__\<close>, which raises
  \<^verbatim>\<open>ValueError\<close> beyond the digit limit; NaN and the infinities are written (as
  \<^verbatim>\<open>NaN\<close>, \<^verbatim>\<open>Infinity\<close>, \<^verbatim>\<open>-Infinity\<close>).
\<close>

definition dumps :: "pyval \<Rightarrow> error + json" where
  "dumps v = (if printable v then Inr (encode v) else Inl ValueError)"

text \<open>
  \<^verbatim>\<open>json.loads\<close> builds a dictionary from the members of an object in order; a repeated
  name overwrites the earlier value.
\<close>

fun dict_set :: "pydict \<Rightarrow> pykey \<Rightarrow> pyval \<Rightarrow> pydict" where
  "dict_set [] k v = [(k, v)]"
| "dict_set ((k', v') # d) k v = (if k' = k then (k', v) # d else (k', v') # dict_set d k v)"

definition dict_of_pairs :: "(pykey \<times> pyval) list \<Rightarrow> pydict" where
  "dict_of_pairs kvs = fold (\<lambda>(k, v) d. dict_set d k v) kvs []"

fun decode :: "json \<Rightarrow> pyval" where
  "decode JNull = PNone"
| "decode (JBool b) = PBool b"
| "decode (JInt i) = PInt i"
| "decode (JFloat f) = PFloat f"
| "decode (JStr s) = PStr s"
| "decode (JArr xs) = PList (map decode xs)"
| "decode (JObj kvs) = PDict (dict_of_pairs (map (\<lambda>(k, v). (KStr k, decode v)) kvs))"

text \<open>
  \<^verbatim>\<open>json.loads\<close> reads an integer literal with \<^verbatim>\<open>int\<close>, which raises
  \<^verbatim>\<open>ValueError\<close> beyond the digit limit.
\<close>

fun parsable :: "json \<Rightarrow> bool" where
  "parsable (JInt i) = repr_ok i"
| "parsable (JArr xs) = list_all parsable xs"
| "parsable (JObj kvs) = list_all (\<lambda>(k, v). parsable v) kvs"
| "parsable j = True"

definition loads :: "json \<Rightarrow> error + pyval" where
  "loads j = (if parsable j then Inr (decode j) else Inl ValueError)"

definition to_json :: "ZMapScanConfig \<Rightarrow> error + json_str" where
  "to_json c = (case dumps (PDict (to_dict c)) of Inl e \<Rightarrow> Inl e | Inr j \<Rightarrow> Inr (Encodes j))"

text \<open>
  \<^verbatim>\<open>cls.from_dict(json.loads(json_str))\<close>: text that is not JSON raises
  \<^verbatim>\<open>json.JSONDecodeError\<close>; a document that is not an object is not a mapping, and
  \<^verbatim>\<open>cls(**data)\<close> raises \<^verbatim>\<open>TypeError\<close>.
\<close>

definition from_json :: "json_str \<Rightarrow> error + ZMapScanConfig" where
  "from_json t =
     (case t of
        Not_json \<Rightarrow> Inl JSONDecodeError
      | Encodes j \<Rightarrow>
          (case loads j of
             Inl e \<Rightarrow> Inl e
           | Inr v \<Rightarrow> (case v of PDict d \<Rightarrow> from_dict d | _ \<Rightarrow> Inl TypeError)))"



section \<open>Declared types\<close>

text \<open>
  The annotation \<^verbatim>\<open>Optional[int]\<close>: \<^verbatim>\<open>None\<close> or an integer (a \<^verbatim>\<open>bool\<close> is an
  \<^verbatim>\<open>int\<close> in Python).
\<close>

fun is_optional_int :: "pyval \<Rightarrow> bool" where
  "is_optional_int PNone = True"
| "is_optional_int (PInt i) = True"
| "is_optional_int (PBool b) = True"
| "is_optional_int v = False"

text \<open>The annotation \<^verbatim>\<open>Optional[str]\<close>.\<close>

fun is_optional_str :: "pyval \<Rightarrow> bool" where
  "is_optional_str PNone = True"
| "is_optional_str (PStr s) = True"
| "is_optional_str v = False"

text \<open>
  A source port that, when it is a string, is ASCII text of at most 4300 characters: then
  \<^verbatim>\<open>str.isdigit\<close> accepts only what \<^verbatim>\<open>int\<close> reads.
\<close>

definition is_ascii :: "char \<Rightarrow> bool" where
  "is_ascii c = (of_char c < (128 :: nat))"

definition plain_source_port :: "pyval \<Rightarrow> bool" where
  "plain_source_port v =
     (case v of
        PStr s \<Rightarrow> list_all is_ascii s \<and> length s \<le> max_str_digits
      | _ \<Rightarrow> True)"

section \<open>The constraints in the words of the specification\<close>

text \<open>
  The canonical MAC pattern, six two-digit hex octets delimited by a colon or a hyphen: 17
  characters, every third one a delimiter and the others hex digits.
\<close>

definition mac_position_ok :: "nat \<Rightarrow> char \<Rightarrow> bool" where
  "mac_position_ok i c = (if i mod 3 = 2 then is_mac_sep c else is_hex c)"

definition canonical_mac :: "string \<Rightarrow> bool" where
  "canonical_mac s = (length s = 17 \<and> list_all (\<lambda>i. mac_position_ok i (s ! i)) [0..<17])"

text \<open>
  A source port: an integer in \<open>[0, 65535]\<close>, or a range string \<^verbatim>\<open>start-end\<close> whose two
  bounds are numerals in \<open>[0, 65535]\<close> with \<open>start \<le> end\<close>.
\<close>

definition numeral_value :: "string \<Rightarrow> nat option" where
  "numeral_value s = (if s \<noteq> [] \<and> list_all is_decimal s then int_unsigned s else None)"

definition port_or_range :: "pyval \<Rightarrow> bool" where
  "port_or_range v =
     (case v of
        PInt i \<Rightarrow> 0 \<le> i \<and> i \<le> 65535
      | PStr s \<Rightarrow>
          (case map numeral_value (split CHR ''-'' s) of
             [Some start, Some end] \<Rightarrow> start \<le> end \<and> end \<le> 65535
           | _ \<Rightarrow> False)
      | _ \<Rightarrow> False)"

text \<open>
  A string for \<^verbatim>\<open>max_targets\<close>: a bare integer, or a percentage, a numeric prefix followed
  by \<^verbatim>\<open>%\<close>. A bare integer is a non-empty string of decimal digits after an optional
  sign; a numeric prefix is a non-empty string of digits, decimal points and signs.
\<close>

definition bare_integer :: "string \<Rightarrow> bool" where
  "bare_integer s =
     (case s of
        [] \<Rightarrow> False
      | c # cs \<Rightarrow>
          if c = CHR ''-'' \<or> c = CHR ''+'' then cs \<noteq> [] \<and> list_all is_decimal cs
          else list_all is_decimal (c # cs))"

definition numeric_prefix :: "string \<Rightarrow> bool" where
  "numeric_prefix p =
     (p \<noteq> [] \<and> list_all (\<lambda>c. is_decimal c \<or> c \<in> set ''.+-'') p)"

definition integer_or_percentage :: "string \<Rightarrow> bool" where
  "integer_or_percentage s =
     (bare_integer s \<or> (endswith s CHR ''%'' \<and> numeric_prefix (butlast s)))"

section \<open>Construction succeeds exactly when every check passes\<close>

lemma new_config_ok_iff: "(new_config c = Inr c') = (validate c = Inr () \<and> c' = c)"
  by (auto simp: new_config_def split: sum.splits)

lemma and_then_ok: "(and_then a b = Inr ()) = (a = Inr () \<and> b = Inr ())"
  by (cases a) auto

lemma validate_ok_iff:
  "(validate c = Inr ()) =
     (check_target_port (target_port c) = Inr ()
      \<and> check_rate_bandwidth (rate c) (bandwidth c) = Inr ()
      \<and> check_source_port (source_port c) = Inr ()
      \<and> check_max_targets (max_targets c) = Inr ()
      \<and> check_mac ''gateway_mac'' (gateway_mac c) = Inr ()
      \<and> check_mac ''source_mac'' (source_mac c) = Inr ()
      \<and> check_mac ''target_mac'' (target_mac c) = Inr ())"
  by (simp add: validate_def and_then_ok)

lemma check_target_port_int:
  "(check_target_port (PInt p) = Inr ()) = (0 \<le> p \<and> p \<le> 65535)"
  by (simp add: check_target_port_def)

subsection \<open>Messages and the digit limit\<close>

lemma limit_above_ports: "(100000 :: int) \<le> 10 ^ max_str_digits"
proof -
  have "(10 :: int) ^ 5 \<le> 10 ^ max_str_digits"
    by (rule power_increasing) (simp_all add: max_str_digits_def)
  then show ?thesis by simp
qed

lemma repr_ok_small: "\<bar>i\<bar> < 100000 \<Longrightarrow> repr_ok i"
  using limit_above_ports by (simp add: repr_ok_def)

lemma not_repr_ok_limit: "\<not> repr_ok (10 ^ max_str_digits)"
  by (simp add: repr_ok_def)

lemma limit_out_of_range: "\<not> (10 :: int) ^ max_str_digits \<le> 65535"
  using limit_above_ports by simp

lemma config_error_printable: "printable v \<Longrightarrow> config_error template v = ZMapConfigError (template v)"
  by (simp add: config_error_def)

lemma config_error_str: "config_error template (PStr s) = ZMapConfigError (template (PStr s))"
  by (simp add: config_error_def)

lemma config_error_small:
  "\<bar>i\<bar> < 100000 \<Longrightarrow> config_error template (PInt i) = ZMapConfigError (template (PInt i))"
  by (simp add: config_error_def repr_ok_small)

lemma config_error_cases:
  "config_error template v = ZMapConfigError (template v) \<or> config_error template v = ValueError"
  by (simp add: config_error_def)

section \<open>The target port\<close>

text \<open>
  C7. For every integer \<open>p\<close> supplied as \<^verbatim>\<open>target_port\<close>, construction succeeds if and
  only if \<open>0 \<le> p \<le> 65535\<close>: whatever the other fields hold, the configuration with
  \<^verbatim>\<open>target_port = p\<close> is constructed exactly when \<open>p\<close> is in range and the other fields
  pass their own checks, and with every other field at its default exactly when \<open>p\<close> is in
  range. The boundary values 0 and 65535 are accepted; -1 and 65536 are rejected with a
  \<^verbatim>\<open>ZMapConfigError\<close>.
\<close>

theorem target_port_accepted_iff:
  "(new_config (c\<lparr>target_port := PInt p\<rparr>) = Inr (c\<lparr>target_port := PInt p\<rparr>))
     = (0 \<le> p \<and> p \<le> 65535
        \<and> new_config (c\<lparr>target_port := PNone\<rparr>) = Inr (c\<lparr>target_port := PNone\<rparr>))
   \<and> (new_config (default_config\<lparr>target_port := PInt p\<rparr>)
          = Inr (default_config\<lparr>target_port := PInt p\<rparr>))
     = (0 \<le> p \<and> p \<le> 65535)
   \<and> new_config (default_config\<lparr>target_port := PInt 0\<rparr>)
       = Inr (default_config\<lparr>target_port := PInt 0\<rparr>)
   \<and> new_config (default_config\<lparr>target_port := PInt 65535\<rparr>)
       = Inr (default_config\<lparr>target_port := PInt 65535\<rparr>)
   \<and> new_config (default_config\<lparr>target_port := PInt (- 1)\<rparr>)
       = Inl (ZMapConfigError (Invalid_target_port (PInt (- 1))))
   \<and> new_config (default_config\<lparr>target_port := PInt 65536\<rparr>)
       = Inl (ZMapConfigError (Invalid_target_port (PInt 65536)))"
proof -
  have general:
    "(new_config (c\<lparr>target_port := PInt p\<rparr>) = Inr (c\<lparr>target_port := PInt p\<rparr>))
      = (0 \<le> p \<and> p \<le> 65535
         \<and> new_config (c\<lparr>target_port := PNone\<rparr>) = Inr (c\<lparr>target_port := PNone\<rparr>))"
    for c p
    by (simp add: new_config_ok_iff validate_ok_iff check_target_port_int)
       (simp add: check_target_port_def)
  have dflt: "new_config (default_config\<lparr>target_port := PNone\<rparr>)
      = Inr (default_config\<lparr>target_port := PNone\<rparr>)"
    by (simp add: new_config_ok_iff validate_ok_iff default_config_def check_target_port_def
        check_rate_bandwidth_def)
  have low: "new_config (default_config\<lparr>target_port := PInt (- 1)\<rparr>)
       = Inl (ZMapConfigError (Invalid_target_port (PInt (- 1))))"
    by (simp add: new_config_def validate_def check_target_port_def config_error_small)
  have high: "new_config (default_config\<lparr>target_port := PInt 65536\<rparr>)
       = Inl (ZMapConfigError (Invalid_target_port (PInt 65536)))"
    by (simp add: new_config_def validate_def check_target_port_def config_error_small)
  show ?thesis
    using general[where c = default_config and p = p] general[where c = c and p = p]
      general[where c = default_config and p = 0]
      general[where c = default_config and p = 65535] dflt low high
    by simp
qed

theorem target_port_accepted_iff_witness:
  "new_config (default_config\<lparr>target_port := PInt 443\<rparr>)
     = Inr (default_config\<lparr>target_port := PInt 443\<rparr>)
   \<and> new_config (default_config\<lparr>target_port := PInt 70000\<rparr>)
     \<noteq> Inr (default_config\<lparr>target_port := PInt 70000\<rparr>)"
  using target_port_accepted_iff[where c = default_config and p = 443]
    target_port_accepted_iff[where c = default_config and p = 70000]
  by simp

lemma validate_default: "validate default_config = Inr ()"
  by (simp add: validate_ok_iff default_config_def check_target_port_def check_rate_bandwidth_def)

section \<open>Shards\<close>

text \<open>
  C1 (as amended). Construction does not compare \<^verbatim>\<open>shard\<close> with \<^verbatim>\<open>shards\<close>: whether
  validation passes does not depend on the value of either field, and with every other field
  at its default construction succeeds for every pair of integers, \<open>shard \<ge> shards\<close>
  included.
\<close>

theorem shard_not_compared_with_shards:
  "validate (c\<lparr>shards := n, shard := i\<rparr>) = validate c
   \<and> new_config (default_config\<lparr>shards := PInt n', shard := PInt i'\<rparr>)
       = Inr (default_config\<lparr>shards := PInt n', shard := PInt i'\<rparr>)"
proof -
  have "validate (c\<lparr>shards := n, shard := i\<rparr>) = validate c" for c n i
    by (simp add: validate_def)
  then show ?thesis
    by (simp add: new_config_ok_iff validate_default)
qed

theorem shard_not_compared_with_shards_witness:
  "new_config (default_config\<lparr>shards := PInt 4, shard := PInt 4\<rparr>)
     = Inr (default_config\<lparr>shards := PInt 4, shard := PInt 4\<rparr>)"
  using shard_not_compared_with_shards[where n' = 4 and i' = 4] by simp

text \<open>
  C1 as stated fails: with \<^verbatim>\<open>shards = 2\<close> and \<^verbatim>\<open>shard = 5\<close> the instance is constructed.
\<close>

theorem shard_beyond_shards_constructed:
  "new_config (default_config\<lparr>shards := PInt 2, shard := PInt 5\<rparr>)
     = Inr (default_config\<lparr>shards := PInt 2, shard := PInt 5\<rparr>)"
  by (simp add: new_config_ok_iff validate_ok_iff default_config_def check_target_port_def
      check_rate_bandwidth_def)

section \<open>Rate and bandwidth\<close>

lemma check_target_port_typed:
  "is_optional_int v \<Longrightarrow> printable v \<Longrightarrow>
     check_target_port v = Inr () \<or> check_target_port v = Inl (ZMapConfigError (Invalid_target_port v))"
  by (cases v) (auto simp: check_target_port_def config_error_def)









section \<open>Fields without a check\<close>

lemma validate_cong_checked:
  assumes "target_port c = target_port c'" "source_port c = source_port c'"
    "max_targets c = max_targets c'" "gateway_mac c = gateway_mac c'"
    "source_mac c = source_mac c'" "target_mac c = target_mac c'"
    "(rate c = PNone) = (rate c' = PNone)" "(bandwidth c = PNone) = (bandwidth c' = PNone)"
  shows "validate c = validate c'"
  using assms by (simp add: validate_def check_rate_bandwidth_def)

lemma new_config_default_update:
  "validate c = validate default_config \<Longrightarrow> new_config c = Inr c"
  by (simp add: new_config_ok_iff validate_default)

text \<open>
  C10. Construction checks nothing but \<^verbatim>\<open>target_port\<close>, \<^verbatim>\<open>source_port\<close>,
  \<^verbatim>\<open>max_targets\<close>, the three MAC fields, and whether \<^verbatim>\<open>rate\<close> and \<^verbatim>\<open>bandwidth\<close>
  are both set: two configurations that agree on these have the same validation result,
  whatever their other fields hold. In particular, with the other fields at their defaults,
  every integer \<open>n\<close>, negative ones included, is accepted as \<^verbatim>\<open>rate\<close>,
  \<^verbatim>\<open>cooldown_time\<close>, \<^verbatim>\<open>max_runtime\<close>, \<^verbatim>\<open>max_results\<close>, \<^verbatim>\<open>probes\<close>,
  \<^verbatim>\<open>retries\<close>, \<^verbatim>\<open>shards\<close>, \<^verbatim>\<open>shard\<close> or \<^verbatim>\<open>max_targets\<close>, and every string
  \<open>s\<close> as \<^verbatim>\<open>bandwidth\<close>, \<^verbatim>\<open>interface\<close> or \<^verbatim>\<open>source_ip\<close>.
\<close>

theorem unchecked_fields_accept_any_value:
  "(target_port c = target_port c' \<and> source_port c = source_port c'
      \<and> max_targets c = max_targets c' \<and> gateway_mac c = gateway_mac c'
      \<and> source_mac c = source_mac c' \<and> target_mac c = target_mac c'
      \<and> (rate c = PNone) = (rate c' = PNone) \<and> (bandwidth c = PNone) = (bandwidth c' = PNone)
      \<longrightarrow> validate c = validate c')
   \<and> new_config (default_config\<lparr>rate := PInt n\<rparr>) = Inr (default_config\<lparr>rate := PInt n\<rparr>)
   \<and> new_config (default_config\<lparr>cooldown_time := PInt n\<rparr>)
       = Inr (default_config\<lparr>cooldown_time := PInt n\<rparr>)
   \<and> new_config (default_config\<lparr>max_runtime := PInt n\<rparr>)
       = Inr (default_config\<lparr>max_runtime := PInt n\<rparr>)
   \<and> new_config (default_config\<lparr>max_results := PInt n\<rparr>)
       = Inr (default_config\<lparr>max_results := PInt n\<rparr>)
   \<and> new_config (default_config\<lparr>probes := PInt n\<rparr>) = Inr (default_config\<lparr>probes := PInt n\<rparr>)
   \<and> new_config (default_config\<lparr>retries := PInt n\<rparr>) = Inr (default_config\<lparr>retries := PInt n\<rparr>)
   \<and> new_config (default_config\<lparr>shards := PInt n\<rparr>) = Inr (default_config\<lparr>shards := PInt n\<rparr>)
   \<and> new_config (default_config\<lparr>shard := PInt n\<rparr>) = Inr (default_config\<lparr>shard := PInt n\<rparr>)
   \<and> new_config (default_config\<lparr>max_targets := PInt n\<rparr>)
       = Inr (default_config\<lparr>max_targets := PInt n\<rparr>)
   \<and> new_config (default_config\<lparr>bandwidth := PStr s\<rparr>)
       = Inr (default_config\<lparr>bandwidth := PStr s\<rparr>)
   \<and> new_config (default_config\<lparr>interface := PStr s\<rparr>)
       = Inr (default_config\<lparr>interface := PStr s\<rparr>)
   \<and> new_config (default_config\<lparr>source_ip := PStr s\<rparr>)
       = Inr (default_config\<lparr>source_ip := PStr s\<rparr>)"
proof -
  have dep: "target_port c = target_port c' \<and> source_port c = source_port c'
      \<and> max_targets c = max_targets c' \<and> gateway_mac c = gateway_mac c'
      \<and> source_mac c = source_mac c' \<and> target_mac c = target_mac c'
      \<and> (rate c = PNone) = (rate c' = PNone) \<and> (bandwidth c = PNone) = (bandwidth c' = PNone)
      \<longrightarrow> validate c = validate c'"
    using validate_cong_checked[of c c'] by blast
  have r: "new_config (default_config\<lparr>rate := PInt n\<rparr>) = Inr (default_config\<lparr>rate := PInt n\<rparr>)"
    by (rule new_config_default_update)
       (simp add: validate_def default_config_def check_rate_bandwidth_def)
  have b: "new_config (default_config\<lparr>bandwidth := PStr s\<rparr>)
       = Inr (default_config\<lparr>bandwidth := PStr s\<rparr>)"
    by (rule new_config_default_update)
       (simp add: validate_def default_config_def check_rate_bandwidth_def)
  have mt: "new_config (default_config\<lparr>max_targets := PInt n\<rparr>)
       = Inr (default_config\<lparr>max_targets := PInt n\<rparr>)"
    by (rule new_config_default_update) (simp add: validate_def default_config_def)
  have u1: "new_config (default_config\<lparr>cooldown_time := PInt n\<rparr>)
       = Inr (default_config\<lparr>cooldown_time := PInt n\<rparr>)"
    by (rule new_config_default_update) (simp add: validate_def)
  have u2: "new_config (default_config\<lparr>max_runtime := PInt n\<rparr>)
       = Inr (default_config\<lparr>max_runtime := PInt n\<rparr>)"
    by (rule new_config_default_update) (simp add: validate_def)
  have u3: "new_config (default_config\<lparr>max_results := PInt n\<rparr>)
       = Inr (default_config\<lparr>max_results := PInt n\<rparr>)"
    by (rule new_config_default_update) (simp add: validate_def)
  have u4: "new_config (default_config\<lparr>probes := PInt n\<rparr>) = Inr (default_config\<lparr>probes := PInt n\<rparr>)"
    by (rule new_config_default_update) (simp add: validate_def)
  have u5: "new_config (default_config\<lparr>retries := PInt n\<rparr>) = Inr (default_config\<lparr>retries := PInt n\<rparr>)"
    by (rule new_config_default_update) (simp add: validate_def)
  have u6: "new_config (default_config\<lparr>shards := PInt n\<rparr>) = Inr (default_config\<lparr>shards := PInt n\<rparr>)"
    by (rule new_config_default_update) (simp add: validate_def)
  have u7: "new_config (default_config\<lparr>shard := PInt n\<rparr>) = Inr (default_config\<lparr>shard := PInt n\<rparr>)"
    by (rule new_config_default_update) (simp add: validate_def)
  have u8: "new_config (default_config\<lparr>interface := PStr s\<rparr>)
       = Inr (default_config\<lparr>interface := PStr s\<rparr>)"
    by (rule new_config_default_update) (simp add: validate_def)
  have u9: "new_config (default_config\<lparr>source_ip := PStr s\<rparr>)
       = Inr (default_config\<lparr>source_ip := PStr s\<rparr>)"
    by (rule new_config_default_update) (simp add: validate_def)
  from dep r b mt u1 u2 u3 u4 u5 u6 u7 u8 u9 show ?thesis
    by (intro conjI)
qed

theorem unchecked_fields_accept_any_value_witness:
  "validate (default_config\<lparr>retries := PInt (- 3), seed := PStr ''x''\<rparr>) = validate default_config
   \<and> new_config (default_config\<lparr>rate := PInt (- 5)\<rparr>) = Inr (default_config\<lparr>rate := PInt (- 5)\<rparr>)
   \<and> new_config (default_config\<lparr>source_ip := PStr ''not an address''\<rparr>)
       = Inr (default_config\<lparr>source_ip := PStr ''not an address''\<rparr>)"
  using unchecked_fields_accept_any_value[where c = "default_config\<lparr>retries := PInt (- 3), seed := PStr ''x''\<rparr>"
      and c' = default_config and n = "- 5" and s = "''not an address''"]
  by simp

section \<open>Serialization and its inverse\<close>

lemma map_of_filter_not_none:
  "distinct (map fst xs) \<Longrightarrow> map_of (filter (\<lambda>(key, val). val \<noteq> PNone) xs) k
     = (case map_of xs k of None \<Rightarrow> None | Some v \<Rightarrow> if v = PNone then None else Some v)"
proof (induction xs)
  case Nil
  then show ?case by simp
next
  case (Cons x xs)
  obtain k' v' where x: "x = (k', v')" by (cases x)
  from Cons.prems x have notin: "k' \<notin> fst ` set xs" by simp
  then have none: "map_of xs k' = None" by (simp add: map_of_eq_None_iff)
  show ?case
  proof (cases "k = k'")
    case True
    with none have "map_of (filter (\<lambda>(key, val). val \<noteq> PNone) xs) k = None"
      using Cons.IH Cons.prems by simp
    with True x show ?thesis by simp
  next
    case False
    with x Cons.IH Cons.prems show ?thesis by simp
  qed
qed

lemma asdict_keys: "map fst (asdict c) = map KStr field_names"
  by (simp add: asdict_def field_names_def)

lemma distinct_field_names: "distinct field_names"
  by (simp add: field_names_def)

lemma distinct_asdict_keys: "distinct (map fst (asdict c))"
  by (simp add: asdict_keys distinct_map distinct_field_names inj_on_def)

lemma to_dict_lookup:
  "map_of (to_dict c) k
     = (case map_of (asdict c) k of None \<Rightarrow> None | Some v \<Rightarrow> if v = PNone then None else Some v)"
  unfolding to_dict_def by (rule map_of_filter_not_none[OF distinct_asdict_keys])
















lemma to_dict_port_only:
  "to_dict (default_config\<lparr>target_port := PInt p\<rparr>) =
     [(KStr ''target_port'', PInt p), (KStr ''vpn'', PBool False),
      (KStr ''dryrun'', PBool False), (KStr ''ignore_invalid_hosts'', PBool False)]"
  by (simp add: to_dict_def asdict_def default_config_def)

text \<open>
  C9 (as amended). \<^verbatim>\<open>to_dict\<close> omits exactly the fields whose value is \<^verbatim>\<open>None\<close>: a
  field name is a key of the dictionary when the field's value is not \<^verbatim>\<open>None\<close>, and then
  it maps to that value; no other key occurs and no key occurs twice. \<^verbatim>\<open>to_json\<close> writes
  one member per entry of that dictionary, under the same name (it writes no document at all
  when an integer in it is beyond the digit limit). The three flags \<^verbatim>\<open>vpn\<close>,
  \<^verbatim>\<open>dryrun\<close> and \<^verbatim>\<open>ignore_invalid_hosts\<close> default to \<^verbatim>\<open>False\<close>, which is not
  \<^verbatim>\<open>None\<close>: a configuration with only \<^verbatim>\<open>target_port\<close> set serializes to four entries,
  the port and the three flags.
\<close>

theorem to_dict_omits_none_fields:
  "map_of (to_dict c) k
     = (case map_of (asdict c) k of None \<Rightarrow> None | Some v \<Rightarrow> if v = PNone then None else Some v)
   \<and> map fst (asdict c) = map KStr field_names
   \<and> distinct (map fst (to_dict c))
   \<and> to_json c =
       (if printable (PDict (to_dict c))
        then Inr (Encodes (JObj (map (\<lambda>(k, v). (json_key k, encode v)) (to_dict c))))
        else Inl ValueError)
   \<and> to_dict (default_config\<lparr>target_port := PInt p\<rparr>) =
       [(KStr ''target_port'', PInt p), (KStr ''vpn'', PBool False),
        (KStr ''dryrun'', PBool False), (KStr ''ignore_invalid_hosts'', PBool False)]"
proof -
  have "distinct (map fst (to_dict c))"
    unfolding to_dict_def by (rule distinct_map_filter[OF distinct_asdict_keys])
  moreover have "to_json c =
       (if printable (PDict (to_dict c))
        then Inr (Encodes (JObj (map (\<lambda>(k, v). (json_key k, encode v)) (to_dict c))))
        else Inl ValueError)"
    by (simp add: to_json_def dumps_def)
  ultimately show ?thesis
    using to_dict_lookup[of c k] asdict_keys[of c] to_dict_port_only[of p] by simp
qed

theorem to_dict_omits_none_fields_witness:
  "map_of (to_dict (default_config\<lparr>target_port := PInt 80\<rparr>)) (KStr ''vpn'') = Some (PBool False)
   \<and> map_of (to_dict (default_config\<lparr>target_port := PInt 80\<rparr>)) (KStr ''rate'') = None
   \<and> map_of (to_dict (default_config\<lparr>target_port := PInt 80\<rparr>)) (KStr ''target_port'') = Some (PInt 80)"
  using to_dict_omits_none_fields[where c = "default_config\<lparr>target_port := PInt 80\<rparr>" and k = "KStr ''vpn''" and p = 80]
    to_dict_omits_none_fields[where c = "default_config\<lparr>target_port := PInt 80\<rparr>" and k = "KStr ''rate''" and p = 80]
    to_dict_omits_none_fields[where c = "default_config\<lparr>target_port := PInt 80\<rparr>" and k = "KStr ''target_port''" and p = 80]
  by simp

text \<open>
  C9 as stated fails on its own example: the dictionary of a configuration with only
  \<^verbatim>\<open>target_port = 80\<close> set is not the one-entry mapping.
\<close>

theorem to_dict_port_only_keeps_flags:
  "to_dict (default_config\<lparr>target_port := PInt 80\<rparr>) \<noteq> [(KStr ''target_port'', PInt 80)]
   \<and> map fst (to_dict (default_config\<lparr>target_port := PInt 80\<rparr>))
       = [KStr ''target_port'', KStr ''vpn'', KStr ''dryrun'', KStr ''ignore_invalid_hosts'']"
  by (simp add: to_dict_def asdict_def default_config_def)




section \<open>Reading integers\<close>

lemma int_digits_decimal: "list_all is_decimal cs \<Longrightarrow> \<exists>n. int_digits cs acc = Some n"
  by (induction cs arbitrary: acc) auto

lemma is_decimal_not_space: "is_decimal c \<Longrightarrow> \<not> is_int_space c"
  by (auto simp: is_decimal_def is_int_space_def)

lemma is_decimal_not_sign: "is_decimal c \<Longrightarrow> c \<noteq> CHR ''-'' \<and> c \<noteq> CHR ''+''"
  by (auto simp: is_decimal_def)

lemma sign_not_space: "c = CHR ''-'' \<or> c = CHR ''+'' \<Longrightarrow> \<not> is_int_space c"
  by (auto simp: is_int_space_def)

lemma sign_not_decimal: "c = CHR ''-'' \<or> c = CHR ''+'' \<Longrightarrow> \<not> is_decimal c"
  by (auto simp: is_decimal_def)

lemma strip_int_space_ends:
  assumes "s \<noteq> []" "\<not> is_int_space (hd s)" "\<not> is_int_space (last s)"
  shows "strip_int_space s = s"
proof -
  from assms obtain c cs where s: "s = c # cs" by (cases s) auto
  with assms have front: "dropWhile is_int_space s = s" by simp
  from assms have "rev s \<noteq> []" by simp
  then obtain d ds where r: "rev s = d # ds" by (cases "rev s") auto
  then have "d = hd (rev s)" by simp
  also from assms have "\<dots> = last s" by (simp add: hd_rev)
  finally have "\<not> is_int_space d" using assms by simp
  with r have "dropWhile is_int_space (rev s) = rev s" by simp
  with front show ?thesis by (simp add: strip_int_space_def)
qed

lemma strip_int_space_decimal:
  assumes "s \<noteq> []" "list_all is_decimal s"
  shows "strip_int_space s = s"
proof (rule strip_int_space_ends)
  show "s \<noteq> []" by fact
  from assms have "is_decimal (hd s)" "is_decimal (last s)"
    by (auto simp: list_all_iff)
  then show "\<not> is_int_space (hd s)" "\<not> is_int_space (last s)"
    by (simp_all add: is_decimal_not_space)
qed

lemma digit_count_le: "digit_count s \<le> length s"
  by (simp add: digit_count_def)

lemma digit_count_decimal: "list_all is_decimal s \<Longrightarrow> digit_count s = length s"
  by (simp add: digit_count_def list_all_iff)

lemma int_unsigned_decimal:
  assumes "s \<noteq> []" "list_all is_decimal s"
  shows "\<exists>n. int_unsigned s = Some n"
proof -
  from assms obtain c cs where s: "s = c # cs" by (cases s) auto
  with assms have c: "is_decimal c" and cs: "list_all is_decimal cs" by simp_all
  from int_digits_decimal[OF cs] obtain n where "int_digits cs (digit_val c) = Some n" by blast
  with c s show ?thesis by (simp add: int_unsigned_def)
qed

lemma py_int_unsigned:
  assumes "s \<noteq> []" "list_all is_decimal s"
  shows "py_int s = (if length s \<le> max_str_digits then map_option int (int_unsigned s) else None)"
proof -
  from assms obtain c cs where s: "s = c # cs" by (cases s) auto
  with assms have "is_decimal c" by simp
  then have sign: "c \<noteq> CHR ''-''" "c \<noteq> CHR ''+''"
    using is_decimal_not_sign by blast+
  from s sign strip_int_space_decimal[OF assms] digit_count_decimal[OF assms(2)]
  show ?thesis by (auto simp: py_int_def)
qed

lemma py_int_decimal:
  assumes "s \<noteq> []" "list_all is_decimal s" "length s \<le> max_str_digits"
  shows "\<exists>n. py_int s = Some n"
  using py_int_unsigned[OF assms(1,2)] int_unsigned_decimal[OF assms(1,2)] assms(3) by auto

lemma py_int_too_long:
  assumes "list_all is_decimal s" "max_str_digits < length s"
  shows "py_int s = None"
proof -
  from assms(2) have "s \<noteq> []" by auto
  from py_int_unsigned[OF this assms(1)] assms(2) show ?thesis by simp
qed

lemma py_int_signed:
  assumes sign: "c = CHR ''-'' \<or> c = CHR ''+''"
    and cs: "cs \<noteq> []" "list_all is_decimal cs" "length cs \<le> max_str_digits"
  shows "\<exists>n. py_int (c # cs) = Some n"
proof -
  from cs have "is_decimal (last cs)" by (auto simp: list_all_iff)
  then have "\<not> is_int_space (last (c # cs))" using cs(1) by (simp add: is_decimal_not_space)
  moreover have "\<not> is_int_space (hd (c # cs))" using sign by (simp add: sign_not_space)
  ultimately have strip: "strip_int_space (c # cs) = c # cs"
    by (intro strip_int_space_ends) simp_all
  have count: "digit_count (c # cs) = length cs"
    using sign_not_decimal[OF sign] digit_count_decimal[OF cs(2)] by (simp add: digit_count_def)
  from int_unsigned_decimal[OF cs(1,2)] obtain n where "int_unsigned cs = Some n" by blast
  with strip count cs(3) sign show ?thesis by (auto simp: py_int_def)
qed

lemma bare_integer_py_int:
  assumes "bare_integer s" "digit_count s \<le> max_str_digits"
  shows "\<exists>n. py_int s = Some n"
proof -
  from assms(1) obtain c cs where s: "s = c # cs" by (cases s) (auto simp: bare_integer_def)
  show ?thesis
  proof (cases "c = CHR ''-'' \<or> c = CHR ''+''")
    case True
    with assms(1) s have cs: "cs \<noteq> []" "list_all is_decimal cs"
      by (auto simp: bare_integer_def)
    from assms(2) s sign_not_decimal[OF True] digit_count_decimal[OF cs(2)]
    have "length cs \<le> max_str_digits" by (simp add: digit_count_def)
    from py_int_signed[OF True cs this] s show ?thesis by simp
  next
    case False
    with assms(1) s have dec: "list_all is_decimal s" by (auto simp: bare_integer_def)
    with assms(2) have "length s \<le> max_str_digits" by (simp add: digit_count_decimal)
    with dec s show ?thesis by (intro py_int_decimal) simp_all
  qed
qed

lemma int_digits_only_decimal:
  "int_digits cs acc = Some n \<Longrightarrow> list_all (\<lambda>c. is_decimal c \<or> is_superscript_digit c) cs
     \<Longrightarrow> list_all is_decimal cs"
proof (induction cs acc rule: int_digits.induct)
  case (1 acc)
  then show ?case by simp
next
  case (2 c cs acc)
  have us: "\<not> is_decimal CHR ''_''" "\<not> is_superscript_digit CHR ''_''"
    by (simp_all add: is_decimal_def is_superscript_digit_def)
  from "2.prems" have c: "is_decimal c \<or> is_superscript_digit c" by simp
  show ?case
  proof (cases "is_decimal c")
    case True
    with "2.prems" "2.IH"(1) show ?thesis by simp
  next
    case False
    with c us have "c \<noteq> CHR ''_''" by auto
    with False "2.prems" show ?thesis by simp
  qed
qed

lemma superscript_not_space: "is_superscript_digit c \<Longrightarrow> \<not> is_int_space c"
  by (auto simp: is_superscript_digit_def is_int_space_def)

lemma superscript_not_sign: "is_superscript_digit c \<Longrightarrow> c \<noteq> CHR ''-'' \<and> c \<noteq> CHR ''+''"
  by (auto simp: is_superscript_digit_def)

lemma strip_int_space_isdigit:
  assumes "isdigit s"
  shows "strip_int_space s = s"
proof (rule strip_int_space_ends)
  have ns: "\<not> is_int_space c" if "is_decimal c \<or> is_superscript_digit c" for c
    using that is_decimal_not_space superscript_not_space by blast
  from assms show ne: "s \<noteq> []" by (simp add: isdigit_def)
  from assms ne have h: "is_decimal (hd s) \<or> is_superscript_digit (hd s)"
    and l: "is_decimal (last s) \<or> is_superscript_digit (last s)"
    by (auto simp: isdigit_def list_all_iff)
  from h show "\<not> is_int_space (hd s)" by (rule ns)
  from l show "\<not> is_int_space (last s)" by (rule ns)
qed

lemma py_int_isdigit:
  assumes "isdigit s"
  shows "py_int s
    = (if list_all is_decimal s \<and> length s \<le> max_str_digits
       then map_option int (int_unsigned s) else None)"
proof (cases "list_all is_decimal s")
  case True
  from assms have "s \<noteq> []" by (simp add: isdigit_def)
  from py_int_unsigned[OF this True] True show ?thesis by simp
next
  case False
  from assms obtain c cs where s: "s = c # cs" by (cases s) (auto simp: isdigit_def)
  from assms s have c: "is_decimal c \<or> is_superscript_digit c"
    and cs: "list_all (\<lambda>c. is_decimal c \<or> is_superscript_digit c) cs"
    by (simp_all add: isdigit_def)
  from c have sign: "c \<noteq> CHR ''-''" "c \<noteq> CHR ''+''"
    using is_decimal_not_sign superscript_not_sign by blast+
  have "int_unsigned s = None"
  proof (cases "is_decimal c")
    case True
    with False s have ncs: "\<not> list_all is_decimal cs" by simp
    have "int_digits cs (digit_val c) = None"
    proof (rule ccontr)
      assume "int_digits cs (digit_val c) \<noteq> None"
      then obtain n where "int_digits cs (digit_val c) = Some n" by auto
      from int_digits_only_decimal[OF this cs] ncs show False by simp
    qed
    with True s show ?thesis by (simp add: int_unsigned_def)
  next
    case False
    with s show ?thesis by (simp add: int_unsigned_def)
  qed
  with s sign strip_int_space_isdigit[OF assms] False show ?thesis
    by (simp add: py_int_def)
qed

section \<open>The cap on targets\<close>

lemma check_max_targets_str:
  "(check_max_targets (PStr s) = Inr ()) = (endswith s CHR ''%'' \<or> py_int s \<noteq> None)"
  by (auto split: option.splits)

lemma check_max_targets_rejects:
  "check_max_targets v = Inr () \<or> check_max_targets v = Inl (ZMapConfigError (Invalid_max_targets v))"
  by (cases v) (auto simp: config_error_str split: option.splits)

lemma py_int_100: "py_int ''100'' = Some 100"
  by (simp add: py_int_def strip_int_space_def is_int_space_def int_unsigned_def is_decimal_def
      digit_val_def digit_count_def max_str_digits_def)

lemma py_int_abc: "py_int ''abc'' = None"
  by (simp add: py_int_def strip_int_space_def is_int_space_def int_unsigned_def is_decimal_def)

text \<open>
  C6 (as amended). For every string \<open>s\<close> supplied as \<^verbatim>\<open>max_targets\<close>, construction
  succeeds if and only if \<open>s\<close> ends with \<^verbatim>\<open>%\<close> or \<^verbatim>\<open>int(s)\<close> accepts it (and the other
  fields pass their checks); with the other fields at their defaults any other string fails
  with a \<^verbatim>\<open>ZMapConfigError\<close>. So every bare integer of at most 4300 digits and every
  percentage is accepted; what precedes the \<^verbatim>\<open>%\<close> is not looked at.
\<close>

theorem max_targets_string_accepted_iff:
  "(new_config (c\<lparr>max_targets := PStr s\<rparr>) = Inr (c\<lparr>max_targets := PStr s\<rparr>))
     = ((endswith s CHR ''%'' \<or> py_int s \<noteq> None)
        \<and> new_config (c\<lparr>max_targets := PNone\<rparr>) = Inr (c\<lparr>max_targets := PNone\<rparr>))
   \<and> new_config (default_config\<lparr>max_targets := PStr s\<rparr>)
       = (if endswith s CHR ''%'' \<or> py_int s \<noteq> None
          then Inr (default_config\<lparr>max_targets := PStr s\<rparr>)
          else Inl (ZMapConfigError (Invalid_max_targets (PStr s))))
   \<and> ((bare_integer s \<and> digit_count s \<le> max_str_digits)
        \<or> (endswith s CHR ''%'' \<and> numeric_prefix (butlast s))
        \<longrightarrow> new_config (default_config\<lparr>max_targets := PStr s\<rparr>)
            = Inr (default_config\<lparr>max_targets := PStr s\<rparr>))"
proof -
  have general:
    "(new_config (c\<lparr>max_targets := PStr s\<rparr>) = Inr (c\<lparr>max_targets := PStr s\<rparr>))
     = ((endswith s CHR ''%'' \<or> py_int s \<noteq> None)
        \<and> new_config (c\<lparr>max_targets := PNone\<rparr>) = Inr (c\<lparr>max_targets := PNone\<rparr>))"
    by (simp add: new_config_ok_iff validate_ok_iff) (auto split: option.splits)
  have dflt:
    "new_config (default_config\<lparr>max_targets := PStr s\<rparr>)
       = (if endswith s CHR ''%'' \<or> py_int s \<noteq> None
          then Inr (default_config\<lparr>max_targets := PStr s\<rparr>)
          else Inl (ZMapConfigError (Invalid_max_targets (PStr s))))"
    by (auto simp: new_config_def validate_def default_config_def check_target_port_def
        check_rate_bandwidth_def config_error_str split: option.splits)
  have spec: "(bare_integer s \<and> digit_count s \<le> max_str_digits)
        \<or> (endswith s CHR ''%'' \<and> numeric_prefix (butlast s))
        \<longrightarrow> new_config (default_config\<lparr>max_targets := PStr s\<rparr>)
            = Inr (default_config\<lparr>max_targets := PStr s\<rparr>)"
    unfolding dflt using bare_integer_py_int[of s] by auto
  from general dflt spec show ?thesis by (intro conjI)
qed

theorem max_targets_string_accepted_iff_witness:
  "new_config (default_config\<lparr>max_targets := PStr ''100''\<rparr>)
     = Inr (default_config\<lparr>max_targets := PStr ''100''\<rparr>)
   \<and> new_config (default_config\<lparr>max_targets := PStr ''10%''\<rparr>)
     = Inr (default_config\<lparr>max_targets := PStr ''10%''\<rparr>)
   \<and> new_config (default_config\<lparr>max_targets := PStr ''abc''\<rparr>)
     = Inl (ZMapConfigError (Invalid_max_targets (PStr ''abc'')))"
  using max_targets_string_accepted_iff[where c = default_config and s = "''100''"]
    max_targets_string_accepted_iff[where c = default_config and s = "''10%''"]
    max_targets_string_accepted_iff[where c = default_config and s = "''abc''"]
  by (simp add: py_int_100 py_int_abc endswith_def)

text \<open>
  C6 as stated fails in both directions. \<^verbatim>\<open>"abc%"\<close> is neither an integer nor a numeric
  prefix followed by \<^verbatim>\<open>%\<close>, and it is accepted. And the bare integer of 4301 digits
  \<^verbatim>\<open>"11...1"\<close> is rejected, since \<^verbatim>\<open>int\<close> refuses it.
\<close>

theorem non_numeric_percentage_accepted:
  "new_config (default_config\<lparr>max_targets := PStr ''abc%''\<rparr>)
     = Inr (default_config\<lparr>max_targets := PStr ''abc%''\<rparr>)
   \<and> \<not> integer_or_percentage ''abc%''
   \<and> new_config (default_config\<lparr>max_targets := PStr (replicate (Suc max_str_digits) CHR ''1'')\<rparr>)
     = Inl (ZMapConfigError (Invalid_max_targets (PStr (replicate (Suc max_str_digits) CHR ''1''))))
   \<and> integer_or_percentage (replicate (Suc max_str_digits) CHR ''1'')"
proof -
  let ?long = "replicate (Suc max_str_digits) CHR ''1''"
  have "\<not> integer_or_percentage ''abc%''"
    by (simp add: integer_or_percentage_def bare_integer_def numeric_prefix_def is_decimal_def)
  moreover have "new_config (default_config\<lparr>max_targets := PStr ''abc%''\<rparr>)
     = Inr (default_config\<lparr>max_targets := PStr ''abc%''\<rparr>)"
    by (simp add: new_config_ok_iff validate_ok_iff default_config_def check_target_port_def
        check_rate_bandwidth_def endswith_def)
  moreover have dec: "list_all is_decimal ?long"
    by (simp add: list_all_iff is_decimal_def)
  then have "py_int ?long = None"
    by (rule py_int_too_long) simp
  then have "new_config (default_config\<lparr>max_targets := PStr ?long\<rparr>)
     = Inl (ZMapConfigError (Invalid_max_targets (PStr ?long)))"
    by (simp add: new_config_def validate_def default_config_def check_target_port_def
        check_rate_bandwidth_def endswith_def config_error_str)
  moreover from dec have "integer_or_percentage ?long"
    by (simp add: integer_or_percentage_def bare_integer_def is_decimal_def)
  ultimately show ?thesis by simp
qed

section \<open>The errors of construction and decoding\<close>

lemma split_parts_subset: "p \<in> set (split sep s) \<Longrightarrow> set p \<subseteq> set s"
proof (induction s arbitrary: p)
  case Nil
  then show ?case by simp
next
  case (Cons c cs)
  show ?case
  proof (cases "c = sep")
    case True
    with Cons show ?thesis by auto
  next
    case False
    show ?thesis
    proof (cases "split sep cs")
      case Nil
      with False Cons.prems show ?thesis by auto
    next
      case (Cons q qs)
      with False Cons.prems have "p = c # q \<or> p \<in> set qs" by auto
      with Cons Cons.IH[of q] Cons.IH[of p] show ?thesis by auto
    qed
  qed
qed

lemma split_parts_length: "p \<in> set (split sep s) \<Longrightarrow> length p \<le> length s"
proof (induction s arbitrary: p)
  case Nil
  then show ?case by simp
next
  case (Cons c cs)
  show ?case
  proof (cases "c = sep")
    case True
    with Cons.prems have "p = [] \<or> p \<in> set (split sep cs)" by auto
    with Cons.IH[of p] show ?thesis by auto
  next
    case False
    show ?thesis
    proof (cases "split sep cs")
      case Nil
      with False Cons.prems show ?thesis by auto
    next
      case (Cons q qs)
      with False Cons.prems have "p = c # q \<or> p \<in> set qs" by auto
      with Cons Cons.IH[of q] Cons.IH[of p] show ?thesis by auto
    qed
  qed
qed

lemma is_ascii_not_superscript: "is_ascii c \<Longrightarrow> \<not> is_superscript_digit c"
  by (auto simp: is_ascii_def is_superscript_digit_def)

lemma isdigit_plain_py_int:
  assumes "isdigit p" "list_all is_ascii p" "length p \<le> max_str_digits"
  shows "\<exists>n. py_int p = Some n"
proof -
  from assms have "p \<noteq> []" "list_all is_decimal p"
    by (auto simp: isdigit_def list_all_iff dest: is_ascii_not_superscript)
  with assms(3) show ?thesis by (intro py_int_decimal)
qed

lemma check_port_range_plain:
  assumes "list_all is_ascii s" "length s \<le> max_str_digits"
  shows "check_port_range (PStr s) s = Inr ()
    \<or> check_port_range (PStr s) s = Inl (ZMapConfigError (Invalid_source_port_range (PStr s)))
    \<or> check_port_range (PStr s) s = Inl (ZMapConfigError (Invalid_source_port_range_bounds (PStr s)))"
proof (cases "length (split CHR ''-'' s) \<noteq> 2 \<or> \<not> list_all isdigit (split CHR ''-'' s)")
  case True
  then show ?thesis by (simp add: check_port_range_def config_error_str)
next
  case False
  then have "length (split CHR ''-'' s) = 2" by simp
  then obtain p q where parts: "split CHR ''-'' s = [p, q]"
    by (cases "split CHR ''-'' s") (auto simp: length_Suc_conv)
  with False have dig: "isdigit p" "isdigit q" by simp_all
  from parts have mem: "p \<in> set (split CHR ''-'' s)" "q \<in> set (split CHR ''-'' s)" by simp_all
  then have "set p \<subseteq> set s" "set q \<subseteq> set s" by (auto dest: split_parts_subset)
  with assms have plain: "list_all is_ascii p" "list_all is_ascii q"
    by (auto simp: list_all_iff)
  from mem assms(2) have len: "length p \<le> max_str_digits" "length q \<le> max_str_digits"
    by (auto dest: split_parts_length)
  from isdigit_plain_py_int[OF dig(1) plain(1) len(1)] isdigit_plain_py_int[OF dig(2) plain(2) len(2)]
  obtain a b where "py_int p = Some a" "py_int q = Some b" by blast
  with parts dig show ?thesis by (simp add: check_port_range_def config_error_str)
qed

lemma check_source_port_plain:
  assumes "plain_source_port v" "printable v"
  shows "check_source_port v = Inr ()
    \<or> check_source_port v = Inl (ZMapConfigError (Invalid_source_port_range v))
    \<or> check_source_port v = Inl (ZMapConfigError (Invalid_source_port_range_bounds v))
    \<or> check_source_port v = Inl (ZMapConfigError (Invalid_source_port v))"
proof (cases v)
  case (PStr s)
  with assms check_port_range_plain[of s] show ?thesis
    by (auto simp: plain_source_port_def)
next
  case (PInt i)
  with assms show ?thesis by (simp add: config_error_def)
qed auto

lemma check_mac_typed:
  "is_optional_str v \<Longrightarrow>
     check_mac field v = Inr () \<or> check_mac field v = Inl (ZMapConfigError (Invalid_mac field v))"
  by (cases v) (auto simp: config_error_str)

lemma check_rate_bandwidth_cases:
  "check_rate_bandwidth r b = Inr ()
     \<or> check_rate_bandwidth r b = Inl (ZMapConfigError Rate_and_bandwidth)"
  by (simp add: check_rate_bandwidth_def)

lemma and_then_error: "and_then a b = Inl e \<Longrightarrow> a = Inl e \<or> (a = Inr () \<and> b = Inl e)"
  by (cases a) auto

lemma validate_error_cases:
  assumes "validate c = Inl e"
  shows "check_target_port (target_port c) = Inl e
    \<or> check_rate_bandwidth (rate c) (bandwidth c) = Inl e
    \<or> check_source_port (source_port c) = Inl e
    \<or> check_max_targets (max_targets c) = Inl e
    \<or> check_mac ''gateway_mac'' (gateway_mac c) = Inl e
    \<or> check_mac ''source_mac'' (source_mac c) = Inl e
    \<or> check_mac ''target_mac'' (target_mac c) = Inl e"
  using assms unfolding validate_def by (auto dest!: and_then_error)

text \<open>
  C8 (as amended). Every failure of construction is a \<^verbatim>\<open>ZMapConfigError\<close>, with a message
  that is one of the source's templates filled with the value of the offending field (the
  message for rate and bandwidth carries no value), when the checked fields hold plain values
  of their declared types: \<^verbatim>\<open>target_port\<close> is \<^verbatim>\<open>None\<close> or an integer of at most 4300
  digits, \<^verbatim>\<open>source_port\<close> is \<^verbatim>\<open>None\<close>, an integer of at most 4300 digits or an ASCII
  string of at most 4300 characters, and the MAC fields are \<^verbatim>\<open>None\<close> or strings.
  \<^verbatim>\<open>from_dict\<close> runs the same constructor on the fields the dictionary gives, and
  \<^verbatim>\<open>from_json\<close> runs \<^verbatim>\<open>from_dict\<close> on the object the text encodes, so they fail with
  the same errors on the same field values; but a dictionary with a key that is not a field
  name fails with \<^verbatim>\<open>TypeError\<close>, as does a document that is not an object, text that is
  not JSON fails with \<^verbatim>\<open>JSONDecodeError\<close>, and a document that \<^verbatim>\<open>json.loads\<close> refuses
  fails with the error of \<^verbatim>\<open>json.loads\<close>.
\<close>

theorem failures_are_config_errors:
  "(is_optional_int (target_port c) \<and> printable (target_port c)
      \<and> plain_source_port (source_port c) \<and> printable (source_port c)
      \<and> is_optional_str (gateway_mac c) \<and> is_optional_str (source_mac c)
      \<and> is_optional_str (target_mac c) \<and> new_config c = Inl e
     \<longrightarrow> is_config_error e
       \<and> e \<in> set (map ZMapConfigError
           [Invalid_target_port (target_port c), Rate_and_bandwidth,
            Invalid_source_port_range (source_port c),
            Invalid_source_port_range_bounds (source_port c),
            Invalid_source_port (source_port c), Invalid_max_targets (max_targets c),
            Invalid_mac ''gateway_mac'' (gateway_mac c), Invalid_mac ''source_mac'' (source_mac c),
            Invalid_mac ''target_mac'' (target_mac c)]))
   \<and> (list_all (\<lambda>(key, val). key \<in> set (map KStr field_names)) d
     \<longrightarrow> from_dict d = new_config (init_fields d))
   \<and> ((k, v) \<in> set d \<and> k \<notin> set (map KStr field_names) \<longrightarrow> from_dict d = Inl TypeError)
   \<and> from_json Not_json = Inl JSONDecodeError
   \<and> (loads j = Inr (PDict d) \<longrightarrow> from_json (Encodes j) = from_dict d)
   \<and> (loads j = Inr (PDict d) \<and> list_all (\<lambda>(key, val). key \<in> set (map KStr field_names)) d
     \<longrightarrow> from_json (Encodes j) = new_config (init_fields d))
   \<and> (loads j = Inr w \<and> (case w of PDict d' \<Rightarrow> False | _ \<Rightarrow> True)
     \<longrightarrow> from_json (Encodes j) = Inl TypeError)
   \<and> (loads j = Inl e' \<longrightarrow> from_json (Encodes j) = Inl e')"
  (is "?typed \<and> ?known \<and> ?unknown \<and> ?notjson \<and> ?obj \<and> ?objknown \<and> ?other \<and> ?refused")
proof -
  have typed: "is_config_error e
       \<and> e \<in> set (map ZMapConfigError
           [Invalid_target_port (target_port c), Rate_and_bandwidth,
            Invalid_source_port_range (source_port c),
            Invalid_source_port_range_bounds (source_port c),
            Invalid_source_port (source_port c), Invalid_max_targets (max_targets c),
            Invalid_mac ''gateway_mac'' (gateway_mac c), Invalid_mac ''source_mac'' (source_mac c),
            Invalid_mac ''target_mac'' (target_mac c)])"
    if tp: "is_optional_int (target_port c)" "printable (target_port c)"
      and sp: "plain_source_port (source_port c)" "printable (source_port c)"
      and gm: "is_optional_str (gateway_mac c)" and sm: "is_optional_str (source_mac c)"
      and tm: "is_optional_str (target_mac c)" and fails: "new_config c = Inl e"
  proof -
    from fails have "validate c = Inl e"
      by (auto simp: new_config_def split: sum.splits)
    then have cases: "check_target_port (target_port c) = Inl e
        \<or> check_rate_bandwidth (rate c) (bandwidth c) = Inl e
        \<or> check_source_port (source_port c) = Inl e
        \<or> check_max_targets (max_targets c) = Inl e
        \<or> check_mac ''gateway_mac'' (gateway_mac c) = Inl e
        \<or> check_mac ''source_mac'' (source_mac c) = Inl e
        \<or> check_mac ''target_mac'' (target_mac c) = Inl e"
      by (rule validate_error_cases)
    let ?E = "set (map ZMapConfigError
           [Invalid_target_port (target_port c), Rate_and_bandwidth,
            Invalid_source_port_range (source_port c),
            Invalid_source_port_range_bounds (source_port c),
            Invalid_source_port (source_port c), Invalid_max_targets (max_targets c),
            Invalid_mac ''gateway_mac'' (gateway_mac c), Invalid_mac ''source_mac'' (source_mac c),
            Invalid_mac ''target_mac'' (target_mac c)])"
    have c1: "check_target_port (target_port c) = Inl e \<Longrightarrow> e \<in> ?E"
      using check_target_port_typed[OF tp] by auto
    have c2: "check_rate_bandwidth (rate c) (bandwidth c) = Inl e \<Longrightarrow> e \<in> ?E"
      using check_rate_bandwidth_cases[of "rate c" "bandwidth c"] by auto
    have c3: "check_source_port (source_port c) = Inl e \<Longrightarrow> e \<in> ?E"
      using check_source_port_plain[OF sp] by auto
    have c4: "check_max_targets (max_targets c) = Inl e \<Longrightarrow> e \<in> ?E"
      using check_max_targets_rejects[of "max_targets c"] by auto
    have c5: "check_mac ''gateway_mac'' (gateway_mac c) = Inl e \<Longrightarrow> e \<in> ?E"
      using check_mac_typed[OF gm, of "''gateway_mac''"] by auto
    have c6: "check_mac ''source_mac'' (source_mac c) = Inl e \<Longrightarrow> e \<in> ?E"
      using check_mac_typed[OF sm, of "''source_mac''"] by auto
    have c7: "check_mac ''target_mac'' (target_mac c) = Inl e \<Longrightarrow> e \<in> ?E"
      using check_mac_typed[OF tm, of "''target_mac''"] by auto
    from cases c1 c2 c3 c4 c5 c6 c7 have "e \<in> ?E" by blast
    then show ?thesis by auto
  qed
  have known: "from_dict d = new_config (init_fields d)"
    if "list_all (\<lambda>(key, val). key \<in> set (map KStr field_names)) d"
    using that by (simp add: from_dict_def)
  have unknown: "from_dict d = Inl TypeError"
    if "(k, v) \<in> set d" "k \<notin> set (map KStr field_names)"
  proof -
    from that have "\<not> list_all (\<lambda>(key, val). key \<in> set (map KStr field_names)) d"
      by (auto simp: list_all_iff)
    then show ?thesis by (simp add: from_dict_def)
  qed
  have notjson: "from_json Not_json = Inl JSONDecodeError"
    by (simp add: from_json_def)
  have obj: "from_json (Encodes j) = from_dict d" if "loads j = Inr (PDict d)"
    using that by (simp add: from_json_def)
  have other: "from_json (Encodes j) = Inl TypeError"
    if "loads j = Inr w" "case w of PDict d' \<Rightarrow> False | _ \<Rightarrow> True"
    using that by (cases w) (simp_all add: from_json_def)
  have refused: "from_json (Encodes j) = Inl e'" if "loads j = Inl e'"
    using that by (simp add: from_json_def)
  from typed have p1: ?typed by blast
  from known have p2: ?known by blast
  from unknown have p3: ?unknown by blast
  from obj have p5: ?obj by blast
  from obj known have p6: ?objknown by simp
  from other have p7: ?other by blast
  from refused have p8: ?refused by blast
  from p1 p2 p3 notjson p5 p6 p7 p8 show ?thesis by (intro conjI)
qed

theorem failures_are_config_errors_witness:
  "new_config (default_config\<lparr>target_port := PInt 70000\<rparr>)
     = Inl (ZMapConfigError (Invalid_target_port (PInt 70000)))
   \<and> from_dict [(KStr ''target_port'', PInt 70000)]
     = Inl (ZMapConfigError (Invalid_target_port (PInt 70000)))
   \<and> from_json (Encodes (JObj [(''target_port'', JInt 70000)]))
     = Inl (ZMapConfigError (Invalid_target_port (PInt 70000)))
   \<and> from_dict [(KStr ''port'', PInt 80)] = Inl TypeError"
proof -
  let ?c = "default_config\<lparr>target_port := PInt 70000\<rparr>"
  let ?d = "[(KStr ''target_port'', PInt 70000)]"
  let ?j = "JObj [(''target_port'', JInt 70000)]"
  have fails: "new_config ?c = Inl (ZMapConfigError (Invalid_target_port (PInt 70000)))"
    by (simp add: new_config_def validate_def check_target_port_def config_error_small)
  have typed: "is_optional_int (target_port ?c) \<and> printable (target_port ?c)
      \<and> plain_source_port (source_port ?c) \<and> printable (source_port ?c)
      \<and> is_optional_str (gateway_mac ?c) \<and> is_optional_str (source_mac ?c)
      \<and> is_optional_str (target_mac ?c)"
    by (simp add: default_config_def plain_source_port_def repr_ok_small)
  have keys: "list_all (\<lambda>(key, val). key \<in> set (map KStr field_names)) ?d"
    by (simp add: field_names_def)
  have init: "init_fields ?d = ?c"
    by (simp add: init_fields_def arg_def default_config_def)
  have doc: "loads ?j = Inr (PDict ?d)"
    by (simp add: loads_def dict_of_pairs_def repr_ok_small)
  have mem: "(KStr ''port'', PInt 80) \<in> set [(KStr ''port'', PInt 80)]
      \<and> KStr ''port'' \<notin> set (map KStr field_names)"
    by (simp add: field_names_def)
  from failures_are_config_errors[where c = ?c and d = ?d and j = ?j and
      e = "ZMapConfigError (Invalid_target_port (PInt 70000))"]
    failures_are_config_errors[where d = "[(KStr ''port'', PInt 80)]" and k = "KStr ''port''"
      and v = "PInt 80"]
    fails typed keys init doc mem
  show ?thesis by simp
qed

text \<open>
  C8 as stated fails: an unknown field makes \<^verbatim>\<open>from_dict\<close> and \<^verbatim>\<open>from_json\<close> raise
  \<^verbatim>\<open>TypeError\<close>, text that is not JSON raises \<^verbatim>\<open>JSONDecodeError\<close>, and in construction
  itself a source port range whose bound is a superscript digit, and a target port of 4301
  digits (the integer \<open>10 ^ 4300\<close>), raise \<^verbatim>\<open>ValueError\<close>.
\<close>

theorem unknown_key_raises_type_error:
  "from_dict [(KStr ''foo'', PInt 1)] = Inl TypeError
   \<and> from_json (Encodes (JObj [(''foo'', JInt 1)])) = Inl TypeError
   \<and> from_json Not_json = Inl JSONDecodeError
   \<and> new_config (default_config\<lparr>source_port := PStr [CHR 0xB2, CHR ''-'', CHR ''5'']\<rparr>)
       = Inl ValueError
   \<and> new_config (default_config\<lparr>target_port := PInt (10 ^ max_str_digits)\<rparr>) = Inl ValueError"
proof -
  have a: "from_dict [(KStr ''foo'', PInt 1)] = Inl TypeError"
    by (simp add: from_dict_def field_names_def)
  have b: "from_json (Encodes (JObj [(''foo'', JInt 1)])) = Inl TypeError"
    by (simp add: from_json_def loads_def dict_of_pairs_def from_dict_def field_names_def
        repr_ok_small)
  have c: "from_json Not_json = Inl JSONDecodeError"
    by (simp add: from_json_def)
  have d: "new_config (default_config\<lparr>source_port := PStr [CHR 0xB2, CHR ''-'', CHR ''5'']\<rparr>)
       = Inl ValueError"
    by (simp add: new_config_def validate_def default_config_def check_target_port_def
        check_rate_bandwidth_def check_port_range_def isdigit_def is_decimal_def
        is_superscript_digit_def py_int_def strip_int_space_def is_int_space_def
        int_unsigned_def digit_val_def digit_count_def max_str_digits_def)
  have e: "new_config (default_config\<lparr>target_port := PInt (10 ^ max_str_digits)\<rparr>) = Inl ValueError"
    by (simp add: new_config_def validate_def check_target_port_def config_error_def
        not_repr_ok_limit limit_out_of_range)
  from a b c d e show ?thesis by simp
qed

section \<open>MAC addresses are checked by the pattern, up to a final newline\<close>

lemma octet_sep_Some:
  "(octet_sep s = Some rest) = (\<exists>a b d. s = a # b # d # rest \<and> is_hex a \<and> is_hex b \<and> is_mac_sep d)"
proof (cases s)
  case Nil
  then show ?thesis by (simp add: octet_sep_def)
next
  case (Cons a s1)
  show ?thesis
  proof (cases s1)
    case Nil
    with Cons show ?thesis by (simp add: octet_sep_def)
  next
    case (Cons b s2)
    with \<open>s = a # s1\<close> show ?thesis
      by (cases s2) (auto simp: octet_sep_def)
  qed
qed

lemma hex_octet_Some:
  "(hex_octet s = Some rest) = (\<exists>a b. s = a # b # rest \<and> is_hex a \<and> is_hex b)"
proof (cases s)
  case Nil
  then show ?thesis by simp
next
  case (Cons a s1)
  then show ?thesis by (cases s1) auto
qed

lemma mac_position_ok_shift: "mac_position_ok (i + 3) c = mac_position_ok i c"
  by (simp add: mac_position_ok_def)

lemma all_less_Suc3:
  "(\<forall>i < 3 + n. P i) = (P 0 \<and> P (Suc 0) \<and> P 2 \<and> (\<forall>i < n. P (i + 3)))"
  for n :: nat
proof
  assume a: "\<forall>i < 3 + n. P i"
  then have "P 0" "P (Suc 0)" "P 2" by simp_all
  moreover from a have "\<forall>i < n. P (i + 3)" by simp
  ultimately show "P 0 \<and> P (Suc 0) \<and> P 2 \<and> (\<forall>i < n. P (i + 3))" by simp
next
  assume b: "P 0 \<and> P (Suc 0) \<and> P 2 \<and> (\<forall>i < n. P (i + 3))"
  show "\<forall>i < 3 + n. P i"
  proof (intro allI impI)
    fix i assume i: "i < 3 + n"
    show "P i"
    proof (cases "i < 3")
      case True
      then have "i = 0 \<or> i = Suc 0 \<or> i = 2" by arith
      with b show ?thesis by auto
    next
      case False
      with i have lt: "i - 3 < n" by arith
      from False have eq: "(i - 3) + 3 = i" by arith
      from b lt have "P ((i - 3) + 3)" by blast
      with eq show ?thesis by simp
    qed
  qed
qed

lemma length_ge3: "3 \<le> length s \<Longrightarrow> \<exists>a b d r. s = a # b # d # r"
proof -
  assume h: "3 \<le> length s"
  then obtain a s1 where s: "s = a # s1" by (cases s) auto
  with h obtain b s2 where s1: "s1 = b # s2" by (cases s1) auto
  with h s obtain d r where "s2 = d # r" by (cases s2) auto
  with s s1 show ?thesis by blast
qed

lemma drop3: "drop (3 + k) (a # b # d # r) = drop k r"
  by (simp add: numeral_3_eq_3)

lemma repeat_octet_sep:
  "(repeat n octet_sep s = Some rest)
     = (3 * n \<le> length s \<and> rest = drop (3 * n) s \<and> (\<forall>i < 3 * n. mac_position_ok i (s ! i)))"
proof (induction n arbitrary: s)
  case 0
  then show ?case by auto
next
  case (Suc n)
  show ?case
  proof (cases "octet_sep s")
    case None
    then have no: "\<not> (\<exists>a b d r. s = a # b # d # r \<and> is_hex a \<and> is_hex b \<and> is_mac_sep d)"
      using octet_sep_Some[of s] by auto
    have "\<not> (3 * Suc n \<le> length s \<and> (\<forall>i < 3 * Suc n. mac_position_ok i (s ! i)))"
    proof
      assume h: "3 * Suc n \<le> length s \<and> (\<forall>i < 3 * Suc n. mac_position_ok i (s ! i))"
      then have "3 \<le> length s" by simp
      then obtain a b d r where s: "s = a # b # d # r"
        using length_ge3 by blast
      from h have "mac_position_ok 0 (s ! 0)" "mac_position_ok (Suc 0) (s ! Suc 0)"
        "mac_position_ok 2 (s ! 2)"
        by simp_all
      with s have "is_hex a \<and> is_hex b \<and> is_mac_sep d" by (simp add: mac_position_ok_def)
      with s no show False by blast
    qed
    with None show ?thesis by auto
  next
    case (Some r)
    then obtain a b d where s: "s = a # b # d # r" and ok: "is_hex a" "is_hex b" "is_mac_sep d"
      using octet_sep_Some[of s r] by auto
    have pos: "(\<forall>i < 3 * Suc n. mac_position_ok i (s ! i))
        = (\<forall>i < 3 * n. mac_position_ok i (r ! i))"
      using all_less_Suc3[of "3 * n" "\<lambda>i. mac_position_ok i (s ! i)"] s ok
      by (simp add: mac_position_ok_shift) (simp add: mac_position_ok_def)
    have len: "(3 * Suc n \<le> length s) = (3 * n \<le> length r)"
      using s by simp
    have dr: "drop (3 * Suc n) s = drop (3 * n) r"
      using s drop3[of "3 * n" a b d r] by simp
    from Some have "(repeat (Suc n) octet_sep s = Some rest) = (repeat n octet_sep r = Some rest)"
      by simp
    also have "\<dots>
        = (3 * n \<le> length r \<and> rest = drop (3 * n) r \<and> (\<forall>i < 3 * n. mac_position_ok i (r ! i)))"
      by (rule Suc.IH)
    finally show ?thesis unfolding len dr pos .
  qed
qed

lemma tail_after_groups:
  "(\<exists>a b r. t = a # b # r \<and> is_hex a \<and> is_hex b \<and> at_dollar r)
     = ((length t = 2 \<and> is_hex (t ! 0) \<and> is_hex (t ! 1))
        \<or> (length t = 3 \<and> is_hex (t ! 0) \<and> is_hex (t ! 1) \<and> t ! 2 = CHR 0x0A))"
proof (cases t)
  case Nil
  then show ?thesis by simp
next
  case (Cons a t1)
  note t = this
  show ?thesis
  proof (cases t1)
    case Nil
    with t show ?thesis by simp
  next
    case (Cons b t2)
    note t1 = this
    show ?thesis
    proof (cases t2)
      case Nil
      with t t1 show ?thesis by (simp add: at_dollar_def)
    next
      case (Cons c t3)
      with t t1 show ?thesis by (cases t3) (auto simp: at_dollar_def)
    qed
  qed
qed

lemma is_valid_mac_positions:
  "is_valid_mac s
     = ((\<forall>i < 15. mac_position_ok i (s ! i))
        \<and> ((length s = 17 \<and> is_hex (s ! 15) \<and> is_hex (s ! 16))
           \<or> (length s = 18 \<and> is_hex (s ! 15) \<and> is_hex (s ! 16) \<and> s ! 17 = CHR 0x0A)))"
proof -
  have "is_valid_mac s
      = (\<exists>rest. repeat 5 octet_sep s = Some rest
           \<and> (\<exists>a b r. rest = a # b # r \<and> is_hex a \<and> is_hex b \<and> at_dollar r))"
    by (auto simp: is_valid_mac_def hex_octet_Some split: option.splits)
  also have "\<dots> = (15 \<le> length s \<and> (\<forall>i < 15. mac_position_ok i (s ! i))
      \<and> (\<exists>a b r. drop 15 s = a # b # r \<and> is_hex a \<and> is_hex b \<and> at_dollar r))"
    using repeat_octet_sep[of 5 s] by auto
  also have "\<dots> = (15 \<le> length s \<and> (\<forall>i < 15. mac_position_ok i (s ! i))
      \<and> ((length (drop 15 s) = 2 \<and> is_hex (drop 15 s ! 0) \<and> is_hex (drop 15 s ! 1))
        \<or> (length (drop 15 s) = 3 \<and> is_hex (drop 15 s ! 0) \<and> is_hex (drop 15 s ! 1)
            \<and> drop 15 s ! 2 = CHR 0x0A)))"
    by (simp only: tail_after_groups)
  also have "\<dots> = ((\<forall>i < 15. mac_position_ok i (s ! i))
        \<and> ((length s = 17 \<and> is_hex (s ! 15) \<and> is_hex (s ! 16))
           \<or> (length s = 18 \<and> is_hex (s ! 15) \<and> is_hex (s ! 16) \<and> s ! 17 = CHR 0x0A)))"
    by (cases "15 \<le> length s") auto
  finally show ?thesis .
qed

lemma all_less_17:
  "(\<forall>i < 17. P i) = ((\<forall>i < 15. P i) \<and> P 15 \<and> P (16 :: nat))"
proof
  assume "\<forall>i < 17. P i"
  then show "(\<forall>i < 15. P i) \<and> P 15 \<and> P 16" by simp
next
  assume h: "(\<forall>i < 15. P i) \<and> P 15 \<and> P 16"
  show "\<forall>i < 17. P i"
  proof (intro allI impI)
    fix i :: nat assume "i < 17"
    then have "i < 15 \<or> i = 15 \<or> i = 16" by arith
    with h show "P i" by auto
  qed
qed

lemma canonical_mac_positions:
  "canonical_mac t
     = (length t = 17 \<and> (\<forall>i < 15. mac_position_ok i (t ! i)) \<and> is_hex (t ! 15) \<and> is_hex (t ! 16))"
proof -
  have "canonical_mac t = (length t = 17 \<and> (\<forall>i < 17. mac_position_ok i (t ! i)))"
    by (auto simp: canonical_mac_def list_all_iff)
  also have "\<dots> = (length t = 17 \<and> (\<forall>i < 15. mac_position_ok i (t ! i))
      \<and> mac_position_ok 15 (t ! 15) \<and> mac_position_ok 16 (t ! 16))"
    by (simp only: all_less_17)
  finally show ?thesis by (simp add: mac_position_ok_def)
qed

lemma is_valid_mac_iff:
  "is_valid_mac s
     = (canonical_mac s \<or> (s \<noteq> [] \<and> last s = CHR 0x0A \<and> canonical_mac (butlast s)))"
proof -
  have nl: "\<not> is_hex (CHR 0x0A)"
    by (simp add: is_hex_def)
  have long: "(s \<noteq> [] \<and> last s = CHR 0x0A \<and> canonical_mac (butlast s))
      = ((\<forall>i < 15. mac_position_ok i (s ! i))
         \<and> length s = 18 \<and> is_hex (s ! 15) \<and> is_hex (s ! 16) \<and> s ! 17 = CHR 0x0A)"
  proof (cases "length s = 18")
    case True
    then have ne: "s \<noteq> []" by auto
    from True have last: "last s = s ! 17" by (simp add: last_conv_nth ne)
    from True have bl: "butlast s ! i = s ! i" if "i < 17" for i
      using that by (simp add: nth_butlast)
    have "\<And>i. i < 15 \<Longrightarrow> butlast s ! i = s ! i" by (rule bl) simp
    then have pos: "(\<forall>i < 15. mac_position_ok i (butlast s ! i)) = (\<forall>i < 15. mac_position_ok i (s ! i))"
      by auto
    from True ne last pos bl[of 15] bl[of 16] show ?thesis
      by (auto simp: canonical_mac_positions)
  next
    case False
    then show ?thesis by (auto simp: canonical_mac_positions)
  qed
  from long is_valid_mac_positions[of s] canonical_mac_positions[of s] show ?thesis
    by blast
qed

lemma check_mac_str: "(check_mac field (PStr s) = Inr ()) = is_valid_mac s"
  by simp

lemma canonical_mac_example: "canonical_mac ''AA:BB:CC:DD:EE:FF''"
  by (simp add: canonical_mac_def mac_position_ok_def is_hex_def is_mac_sep_def upt_rec)

lemma not_canonical_mac_newline: "\<not> canonical_mac (''AA:BB:CC:DD:EE:FF'' @ [CHR 0x0A])"
  by (simp add: canonical_mac_def)

lemma not_canonical_mac_short: "\<not> canonical_mac ''AA:BB:CC''"
  by (simp add: canonical_mac_def)

lemma mac_field_accepted_iff:
  "(new_config (default_config\<lparr>gateway_mac := PStr s\<rparr>)
      = Inr (default_config\<lparr>gateway_mac := PStr s\<rparr>))
     = (canonical_mac s \<or> (s \<noteq> [] \<and> last s = CHR 0x0A \<and> canonical_mac (butlast s)))"
  "(new_config (default_config\<lparr>source_mac := PStr s\<rparr>)
      = Inr (default_config\<lparr>source_mac := PStr s\<rparr>))
     = (canonical_mac s \<or> (s \<noteq> [] \<and> last s = CHR 0x0A \<and> canonical_mac (butlast s)))"
  "(new_config (default_config\<lparr>target_mac := PStr s\<rparr>)
      = Inr (default_config\<lparr>target_mac := PStr s\<rparr>))
     = (canonical_mac s \<or> (s \<noteq> [] \<and> last s = CHR 0x0A \<and> canonical_mac (butlast s)))"
  unfolding is_valid_mac_iff[symmetric]
  by (simp_all add: new_config_ok_iff validate_ok_iff default_config_def check_target_port_def
      check_rate_bandwidth_def)

text \<open>
  C4. The claim is that a MAC string is accepted exactly when it is six colon- or
  hyphen-delimited two-digit hex octets. The pattern ends with \<^verbatim>\<open>$\<close>, which in Python also
  matches before a final newline: the string \<^verbatim>\<open>"AA:BB:CC:DD:EE:FF\n"\<close>, which is not of
  that form, is accepted. (By \<open>mac_field_accepted_iff\<close> this is the only difference:
  \<^verbatim>\<open>"AA:BB:CC:DD:EE:FF"\<close> is accepted and \<^verbatim>\<open>"AA:BB:CC"\<close> is rejected, as claimed.)
\<close>

theorem mac_with_trailing_newline_accepted:
  "new_config (default_config\<lparr>gateway_mac := PStr (''AA:BB:CC:DD:EE:FF'' @ [CHR 0x0A])\<rparr>)
     = Inr (default_config\<lparr>gateway_mac := PStr (''AA:BB:CC:DD:EE:FF'' @ [CHR 0x0A])\<rparr>)
   \<and> \<not> canonical_mac (''AA:BB:CC:DD:EE:FF'' @ [CHR 0x0A])
   \<and> new_config (default_config\<lparr>gateway_mac := PStr ''AA:BB:CC:DD:EE:FF''\<rparr>)
     = Inr (default_config\<lparr>gateway_mac := PStr ''AA:BB:CC:DD:EE:FF''\<rparr>)
   \<and> new_config (default_config\<lparr>gateway_mac := PStr ''AA:BB:CC''\<rparr>)
     = Inl (ZMapConfigError (Invalid_mac ''gateway_mac'' (PStr ''AA:BB:CC'')))"
proof -
  have v1: "is_valid_mac (''AA:BB:CC:DD:EE:FF'' @ [CHR 0x0A])"
    unfolding is_valid_mac_iff using canonical_mac_example by simp
  have v2: "is_valid_mac ''AA:BB:CC:DD:EE:FF''"
    unfolding is_valid_mac_iff using canonical_mac_example by simp
  have v3: "\<not> is_valid_mac ''AA:BB:CC''"
    unfolding is_valid_mac_iff by (simp add: canonical_mac_def)
  from v1 v2 v3 not_canonical_mac_newline show ?thesis
    by (simp add: new_config_def validate_def default_config_def check_target_port_def
        check_rate_bandwidth_def config_error_str)
qed

section \<open>The source port\<close>

lemma numeral_value_isdigit:
  "numeral_value p = Some n \<Longrightarrow> isdigit p"
  by (auto simp: numeral_value_def isdigit_def list_all_iff split: if_splits)

lemma numeral_value_py_int:
  assumes "isdigit p"
  shows "py_int p
    = (if length p \<le> max_str_digits then map_option int (numeral_value p) else None)"
  using py_int_isdigit[OF assms] assms
  by (auto simp: numeral_value_def isdigit_def)

lemma two_bounds:
  assumes "case xs of [Some a, Some b] \<Rightarrow> P a b | _ \<Rightarrow> False"
  shows "\<exists>a b. xs = [Some a, Some b]"
proof (cases xs)
  case Nil
  with assms show ?thesis by simp
next
  case (Cons x xs1)
  note xs = this
  show ?thesis
  proof (cases x)
    case None
    with assms xs show ?thesis by simp
  next
    case (Some a)
    note x = this
    show ?thesis
    proof (cases xs1)
      case Nil
      with assms xs x show ?thesis by simp
    next
      case (Cons y xs2)
      note xs1 = this
      show ?thesis
      proof (cases y)
        case None
        with assms xs x xs1 show ?thesis by simp
      next
        case (Some b)
        with assms xs x xs1 show ?thesis by (cases xs2) simp_all
      qed
    qed
  qed
qed

lemma port_or_range_two_parts:
  assumes "port_or_range (PStr s)"
  shows "\<exists>p q. split CHR ''-'' s = [p, q]"
proof -
  from assms have "case map numeral_value (split CHR ''-'' s) of
      [Some a, Some b] \<Rightarrow> a \<le> b \<and> b \<le> 65535 | _ \<Rightarrow> False"
    by (simp add: port_or_range_def)
  then have "\<exists>a b. map numeral_value (split CHR ''-'' s) = [Some a, Some b]"
    by (rule two_bounds)
  then obtain a b where "map numeral_value (split CHR ''-'' s) = [Some a, Some b]"
    by (elim exE)
  then show ?thesis by (auto simp: map_eq_Cons_conv)
qed

lemma check_port_range_two:
  assumes parts: "split CHR ''-'' s = [p, q]"
  shows "(check_port_range v s = Inr ())
    = (port_or_range (PStr s) \<and> length p \<le> max_str_digits \<and> length q \<le> max_str_digits)"
proof (cases "isdigit p \<and> isdigit q")
  case True
  then have p: "py_int p
      = (if length p \<le> max_str_digits then map_option int (numeral_value p) else None)"
    and q: "py_int q
      = (if length q \<le> max_str_digits then map_option int (numeral_value q) else None)"
    by (simp_all add: numeral_value_py_int)
  from True parts p q show ?thesis
    by (cases "numeral_value p"; cases "numeral_value q")
       (auto simp: check_port_range_def port_or_range_def config_error_def)
next
  case False
  with parts have l: "check_port_range v s \<noteq> Inr ()"
    by (auto simp: check_port_range_def)
  from False have "numeral_value p = None \<or> numeral_value q = None"
    using numeral_value_isdigit by (cases "numeral_value p"; cases "numeral_value q") auto
  with parts have "\<not> port_or_range (PStr s)"
    by (auto simp: port_or_range_def split: option.splits)
  with l show ?thesis by simp
qed

lemma check_port_range_not_two:
  assumes "length (split CHR ''-'' s) \<noteq> 2"
  shows "check_port_range v s \<noteq> Inr ()" "\<not> port_or_range (PStr s)"
proof -
  from assms show "check_port_range v s \<noteq> Inr ()"
    by (simp add: check_port_range_def)
  show "\<not> port_or_range (PStr s)"
  proof
    assume "port_or_range (PStr s)"
    from port_or_range_two_parts[OF this] assms show False by auto
  qed
qed

lemma split_no_sep: "sep \<notin> set s \<Longrightarrow> split sep s = [s]"
  by (induction s) auto

lemma port_or_range_has_dash: "port_or_range (PStr s) \<Longrightarrow> CHR ''-'' \<in> set s"
proof (rule ccontr)
  assume a: "port_or_range (PStr s)" and b: "CHR ''-'' \<notin> set s"
  from b have "split CHR ''-'' s = [s]" by (rule split_no_sep)
  with port_or_range_two_parts[OF a] show False by auto
qed

lemma check_source_port_iff:
  "(check_source_port (PStr s) = Inr ())
     = ((port_or_range (PStr s) \<and> list_all (\<lambda>p. length p \<le> max_str_digits) (split CHR ''-'' s))
        \<or> CHR ''-'' \<notin> set s)"
  "(check_source_port (PInt i) = Inr ()) = port_or_range (PInt i)"
proof -
  show "(check_source_port (PStr s) = Inr ())
     = ((port_or_range (PStr s) \<and> list_all (\<lambda>p. length p \<le> max_str_digits) (split CHR ''-'' s))
        \<or> CHR ''-'' \<notin> set s)"
  proof (cases "CHR ''-'' \<in> set s")
    case True
    show ?thesis
    proof (cases "length (split CHR ''-'' s) = 2")
      case two: True
      then obtain p q where parts: "split CHR ''-'' s = [p, q]"
        by (cases "split CHR ''-'' s") (auto simp: length_Suc_conv)
      from check_port_range_two[OF this] True parts show ?thesis by simp
    next
      case False
      from check_port_range_not_two[OF this] True show ?thesis by simp
    qed
  next
    case False
    then show ?thesis by simp
  qed
  show "(check_source_port (PInt i) = Inr ()) = port_or_range (PInt i)"
    by (simp add: port_or_range_def)
qed

lemma source_port_accepted_iff:
  "(new_config (default_config\<lparr>source_port := PStr s\<rparr>)
      = Inr (default_config\<lparr>source_port := PStr s\<rparr>))
     = ((port_or_range (PStr s) \<and> list_all (\<lambda>p. length p \<le> max_str_digits) (split CHR ''-'' s))
        \<or> CHR ''-'' \<notin> set s)"
  "(new_config (default_config\<lparr>source_port := PInt i\<rparr>)
      = Inr (default_config\<lparr>source_port := PInt i\<rparr>))
     = port_or_range (PInt i)"
  unfolding check_source_port_iff[symmetric]
  by (simp_all add: new_config_ok_iff validate_ok_iff default_config_def check_target_port_def
      check_rate_bandwidth_def del: check_source_port.simps)

text \<open>
  C5. The claim is that construction succeeds exactly for an integer in \<open>[0, 65535]\<close> or a
  range string within bounds. The code checks a string only when it contains a hyphen: the
  strings \<^verbatim>\<open>"abc"\<close> and \<^verbatim>\<open>"70000"\<close> are accepted, although neither is a port or a
  range, and although the integer 70000 is rejected. (By \<open>source_port_accepted_iff\<close> integers
  are accepted exactly as claimed, and so are the strings with a hyphen, up to bounds written
  with more than 4300 digits, which \<^verbatim>\<open>int\<close> refuses: \<^verbatim>\<open>"5000-6000"\<close> is accepted,
  \<^verbatim>\<open>"6000-5000"\<close> and \<^verbatim>\<open>"abc-100"\<close> are rejected.)
\<close>

theorem source_port_string_without_dash_accepted:
  "new_config (default_config\<lparr>source_port := PStr ''abc''\<rparr>)
     = Inr (default_config\<lparr>source_port := PStr ''abc''\<rparr>)
   \<and> \<not> port_or_range (PStr ''abc'')
   \<and> new_config (default_config\<lparr>source_port := PStr ''70000''\<rparr>)
     = Inr (default_config\<lparr>source_port := PStr ''70000''\<rparr>)
   \<and> \<not> port_or_range (PStr ''70000'')
   \<and> new_config (default_config\<lparr>source_port := PInt 70000\<rparr>)
     = Inl (ZMapConfigError (Invalid_source_port (PInt 70000)))
   \<and> new_config (default_config\<lparr>source_port := PStr ''5000-6000''\<rparr>)
     = Inr (default_config\<lparr>source_port := PStr ''5000-6000''\<rparr>)
   \<and> new_config (default_config\<lparr>source_port := PStr ''6000-5000''\<rparr>)
     = Inl (ZMapConfigError (Invalid_source_port_range_bounds (PStr ''6000-5000'')))
   \<and> new_config (default_config\<lparr>source_port := PStr ''abc-100''\<rparr>)
     = Inl (ZMapConfigError (Invalid_source_port_range (PStr ''abc-100'')))"
proof -
  have a: "new_config (default_config\<lparr>source_port := PStr ''abc''\<rparr>)
     = Inr (default_config\<lparr>source_port := PStr ''abc''\<rparr>)"
    "new_config (default_config\<lparr>source_port := PStr ''70000''\<rparr>)
     = Inr (default_config\<lparr>source_port := PStr ''70000''\<rparr>)"
    "new_config (default_config\<lparr>source_port := PInt 70000\<rparr>)
     = Inl (ZMapConfigError (Invalid_source_port (PInt 70000)))"
    by (simp_all add: new_config_def validate_def default_config_def check_target_port_def
        check_rate_bandwidth_def config_error_small)
  have b: "\<not> port_or_range (PStr ''abc'')" "\<not> port_or_range (PStr ''70000'')"
    by (simp_all add: port_or_range_def numeral_value_def is_decimal_def int_unsigned_def
        digit_val_def)
  have c: "new_config (default_config\<lparr>source_port := PStr ''5000-6000''\<rparr>)
     = Inr (default_config\<lparr>source_port := PStr ''5000-6000''\<rparr>)"
    "new_config (default_config\<lparr>source_port := PStr ''6000-5000''\<rparr>)
     = Inl (ZMapConfigError (Invalid_source_port_range_bounds (PStr ''6000-5000'')))"
    "new_config (default_config\<lparr>source_port := PStr ''abc-100''\<rparr>)
     = Inl (ZMapConfigError (Invalid_source_port_range (PStr ''abc-100'')))"
    by (simp_all add: new_config_def validate_def default_config_def check_target_port_def
        check_rate_bandwidth_def check_port_range_def isdigit_def is_decimal_def
        is_superscript_digit_def py_int_def strip_int_space_def is_int_space_def
        int_unsigned_def digit_val_def digit_count_def max_str_digits_def config_error_str)
  from a b c show ?thesis by simp
qed

end
